theory Spec2Isabelle
  imports Complex_Main
begin

section \<open>Fully connected multitask networks: graph construction\<close>

text \<open>
  The module \<^verbatim>\<open>deepchem/models/tensorflow_models/fcnet.py\<close> builds computation graphs
  by calling the tensor framework and the helpers of \<^verbatim>\<open>deepchem.nn.model_ops\<close>. None of
  these calls computes a number while the graph is built: each one adds a node that
  records its arguments. A graph is therefore embedded as the term of the calls that were
  made, one constructor per framework operation, with the arguments in the order of the
  source. Python floats that are only handed on (standard deviations, bias constants,
  dropout rates, the perturbation size) are carried as the real number their literal
  denotes; Python integers are \<open>int\<close>.
\<close>

subsection \<open>Exceptions\<close>

datatype py_error =
    AssertionError string
  | NameError string
  | IndexError
  | ZeroDivisionError
  | ValueError
  | TypeError

definition bind :: "py_error + 'a \<Rightarrow> ('a \<Rightarrow> py_error + 'b) \<Rightarrow> py_error + 'b" where
  "bind r k = (case r of Inl e \<Rightarrow> Inl e | Inr v \<Rightarrow> k v)"

definition is_assertion_error :: "py_error + 'a \<Rightarrow> bool" where
  "is_assertion_error r = (case r of Inl (AssertionError msg) \<Rightarrow> True | _ \<Rightarrow> False)"

text \<open>\<^verbatim>\<open>xs[i]\<close> for an index that \<^verbatim>\<open>range\<close> produced (never negative).\<close>

definition py_index :: "'a list \<Rightarrow> nat \<Rightarrow> py_error + 'a" where
  "py_index xs i = (if i < length xs then Inr (xs ! i) else Inl IndexError)"

text \<open>\<^verbatim>\<open>range(n)\<close> for a Python integer \<open>n\<close>: empty when \<open>n \<le> 0\<close>.\<close>

definition py_range :: "int \<Rightarrow> nat list" where
  "py_range n = [0 ..< nat n]"

subsection \<open>Graph nodes\<close>

datatype tensor =
    Placeholder "int option list" string
      \<comment> \<open>\<^verbatim>\<open>tf.placeholder(tf.float32, shape=..., name=...)\<close>; \<open>None\<close> is an open dimension\<close>
  | TruncatedNormal "int list" real
      \<comment> \<open>\<^verbatim>\<open>tf.truncated_normal(shape=..., stddev=...)\<close>\<close>
  | Constant real "int list"
      \<comment> \<open>\<^verbatim>\<open>tf.constant(value=..., shape=...)\<close>\<close>
  | FullyConnected tensor int tensor tensor
      \<comment> \<open>\<^verbatim>\<open>model_ops.fully_connected_layer(tensor=, size=, weight_init=, bias_init=)\<close>\<close>
  | Relu tensor
      \<comment> \<open>\<^verbatim>\<open>tf.nn.relu\<close>\<close>
  | Dropout tensor real bool
      \<comment> \<open>\<^verbatim>\<open>model_ops.dropout(layer, dropouts[i], training)\<close>\<close>
  | Squeeze tensor
      \<comment> \<open>\<^verbatim>\<open>tf.squeeze\<close>\<close>
  | Gradients tensor tensor
      \<comment> \<open>the single element of \<^verbatim>\<open>tf.gradients(ys, xs)\<close>\<close>
  | Sign tensor
      \<comment> \<open>\<^verbatim>\<open>tf.sign\<close>\<close>
  | Scale real tensor
      \<comment> \<open>a Python float times a tensor\<close>
  | Plus tensor tensor
      \<comment> \<open>tensor addition\<close>
  | StopGradient tensor
      \<comment> \<open>\<^verbatim>\<open>tf.stop_gradient\<close>\<close>
  | DivideBy tensor real
      \<comment> \<open>a tensor divided by a Python float\<close>

text \<open>
  What a model function returns: the classifiers return the result of
  \<^verbatim>\<open>model_ops.multitask_logits(layer, n_tasks)\<close>, the regressors a Python list with
  one tensor per task.
\<close>

datatype outputs =
    MultitaskLogits tensor int
  | Heads "tensor list"

subsection \<open>The model object\<close>

record model =
  n_tasks :: int
  n_features :: int
  layer_sizes :: "int list"
  weight_init_stddevs :: "real list"
  bias_init_consts :: "real list"
  dropouts :: "real list"
  batch_size :: int

text \<open>
  The local variables that the hidden-layer loop assigns. \<open>layer\<close> and \<open>i\<close> are bound
  by the first iteration only, hence optional; reading them unbound is a
  \<^verbatim>\<open>NameError\<close>.
\<close>

record loop_vars =
  prev_layer :: tensor
  prev_layer_size :: int
  layer :: "tensor option"
  i :: "nat option"

record build_result =
  mol_features :: tensor
  build_output :: outputs

subsection \<open>The layer parameter checks\<close>

text \<open>
  Lines 39--51 (and 118--130, 260--272, 408--420, the same text): the four lengths are
  put in a set, kept here as a list without duplicates; the first assertion wants one
  element, which \<^verbatim>\<open>pop\<close> then returns; the second wants it positive.
\<close>

definition check_layer_params :: "model \<Rightarrow> py_error + nat" where
  "check_layer_params m =
     (let lengths_set = remdups [length (layer_sizes m), length (weight_init_stddevs m),
                                 length (bias_init_consts m), length (dropouts m)]
      in if length lengths_set \<noteq> 1
         then Inl (AssertionError ''All layer params must have same length.'')
         else (case lengths_set of
                 [] \<Rightarrow> Inl (AssertionError ''All layer params must have same length.'')
               | n_layers # _ \<Rightarrow>
                   if \<not> n_layers > 0
                   then Inl (AssertionError ''Must have some layers defined.'')
                   else Inr n_layers))"

subsection \<open>The hidden layers\<close>

text \<open>One pass through the body of \<^verbatim>\<open>for i in range(n_layers)\<close>.\<close>

definition hidden_layer :: "model \<Rightarrow> bool \<Rightarrow> nat \<Rightarrow> loop_vars \<Rightarrow> py_error + loop_vars" where
  "hidden_layer m training k v =
     bind (py_index (layer_sizes m) k) (\<lambda>size.
     bind (py_index (weight_init_stddevs m) k) (\<lambda>stddev.
     bind (py_index (bias_init_consts m) k) (\<lambda>bias.
     bind (py_index (dropouts m) k) (\<lambda>rate.
       let l = Relu (FullyConnected (prev_layer v) size
                       (TruncatedNormal [prev_layer_size v, size] stddev)
                       (Constant bias [size]));
           l = Dropout l rate training
       in Inr \<lparr>prev_layer = l, prev_layer_size = size, layer = Some l, i = Some k\<rparr>))))"

fun hidden_layers :: "model \<Rightarrow> bool \<Rightarrow> nat list \<Rightarrow> loop_vars \<Rightarrow> py_error + loop_vars" where
  "hidden_layers m training [] v = Inr v"
| "hidden_layers m training (k # ks) v =
     bind (hidden_layer m training k v) (hidden_layers m training ks)"

text \<open>
  Everything from the parameter checks to the end of the loop, started on the input
  tensor \<open>x\<close>; the four methods below share this text.
\<close>

definition layer_stack :: "model \<Rightarrow> tensor \<Rightarrow> bool \<Rightarrow> py_error + loop_vars" where
  "layer_stack m x training =
     bind (check_layer_params m) (\<lambda>n_layers.
       hidden_layers m training [0 ..< n_layers]
         \<lparr>prev_layer = x, prev_layer_size = n_features m, layer = None, i = None\<rparr>)"

definition mol_features_placeholder :: "model \<Rightarrow> tensor" where
  "mol_features_placeholder m = Placeholder [None, Some (n_features m)] ''mol_features''"

subsection \<open>The classifiers\<close>

text \<open>\<^verbatim>\<open>TensorflowAdversarialMultiTaskClassifier.model\<close>\<close>

definition classifier_model :: "model \<Rightarrow> tensor \<Rightarrow> bool \<Rightarrow> py_error + outputs" where
  "classifier_model m x training =
     bind (layer_stack m x training) (\<lambda>v.
       case layer v of
         None \<Rightarrow> Inl (NameError ''layer'')
       | Some l \<Rightarrow> Inr (MultitaskLogits l (n_tasks m)))"

text \<open>
  \<^verbatim>\<open>TensorflowMultiTaskClassifier.build\<close>: the same on a placeholder of its own, which
  it stores in \<^verbatim>\<open>self.mol_features\<close>.
\<close>

definition classifier_build :: "model \<Rightarrow> bool \<Rightarrow> py_error + build_result" where
  "classifier_build m training =
     (let x = mol_features_placeholder m
      in bind (layer_stack m x training) (\<lambda>v.
           case layer v of
             None \<Rightarrow> Inl (NameError ''layer'')
           | Some l \<Rightarrow> Inr \<lparr>mol_features = x, build_output = MultitaskLogits l (n_tasks m)\<rparr>))"

subsection \<open>The regressors\<close>

text \<open>
  The loop \<^verbatim>\<open>for task in range(self.n_tasks)\<close> that appends one head per task. Its body
  reads \<open>i\<close>, \<open>prev_layer\<close> and \<open>prev_layer_size\<close> as the hidden-layer loop left them.
\<close>

definition task_head :: "model \<Rightarrow> loop_vars \<Rightarrow> py_error + tensor" where
  "task_head m v =
     (case i v of
        None \<Rightarrow> Inl (NameError ''i'')
      | Some k \<Rightarrow>
          bind (py_index (layer_sizes m) k) (\<lambda>size.
          bind (py_index (weight_init_stddevs m) k) (\<lambda>stddev.
          bind (py_index (bias_init_consts m) k) (\<lambda>bias.
            Inr (Squeeze (FullyConnected (prev_layer v) size
                            (TruncatedNormal [prev_layer_size v, 1] stddev)
                            (Constant bias [1])))))))"

fun task_heads :: "model \<Rightarrow> loop_vars \<Rightarrow> nat list \<Rightarrow> tensor list \<Rightarrow> py_error + tensor list" where
  "task_heads m v [] out = Inr out"
| "task_heads m v (task # tasks) out =
     bind (task_head m v) (\<lambda>h. task_heads m v tasks (out @ [h]))"

text \<open>\<^verbatim>\<open>TensorflowAdversarialMultiTaskRegressor.model\<close>\<close>

definition regressor_model :: "model \<Rightarrow> tensor \<Rightarrow> bool \<Rightarrow> py_error + outputs" where
  "regressor_model m x training =
     bind (layer_stack m x training) (\<lambda>v.
     bind (task_heads m v (py_range (n_tasks m)) []) (\<lambda>out.
       Inr (Heads out)))"

text \<open>\<^verbatim>\<open>TensorflowMultiTaskRegressor.build\<close>\<close>

definition regressor_build :: "model \<Rightarrow> bool \<Rightarrow> py_error + build_result" where
  "regressor_build m training =
     (let x = mol_features_placeholder m
      in bind (layer_stack m x training) (\<lambda>v.
         bind (task_heads m v (py_range (n_tasks m)) []) (\<lambda>out.
           Inr \<lparr>mol_features = x, build_output = Heads out\<rparr>)))"

subsection \<open>What the description of the graph says\<close>

text \<open>
  The configurations the two assertions let through: four lists of one common length,
  which is not zero.
\<close>

definition layer_params_ok :: "model \<Rightarrow> bool" where
  "layer_params_ok m =
     (length (layer_sizes m) = length (weight_init_stddevs m) \<and>
      length (weight_init_stddevs m) = length (bias_init_consts m) \<and>
      length (bias_init_consts m) = length (dropouts m) \<and>
      0 < length (layer_sizes m))"

text \<open>
  The stack as it is described: the tensor after \<open>k\<close> hidden layers of the input
  \<open>x\<close>. Layer \<open>k\<close> (counted from 0) is the dropout of the rectified fully connected
  layer over the tensor before it, of size \<open>layer_sizes[k]\<close>, with weights drawn for the
  shape \<open>[input size, layer_sizes[k]]\<close> at deviation \<open>weight_init_stddevs[k]\<close> and a
  bias of \<open>bias_init_consts[k]\<close>; the input size is the number of features for the first
  layer and the size of the layer before for the others.
\<close>

definition input_size :: "model \<Rightarrow> nat \<Rightarrow> int" where
  "input_size m k = (if k = 0 then n_features m else layer_sizes m ! (k - 1))"

fun hidden_output :: "model \<Rightarrow> bool \<Rightarrow> tensor \<Rightarrow> nat \<Rightarrow> tensor" where
  "hidden_output m training x 0 = x"
| "hidden_output m training x (Suc k) =
     Dropout
       (Relu (FullyConnected (hidden_output m training x k) (layer_sizes m ! k)
                (TruncatedNormal [input_size m k, layer_sizes m ! k] (weight_init_stddevs m ! k))
                (Constant (bias_init_consts m ! k) [layer_sizes m ! k])))
       (dropouts m ! k) training"

text \<open>The loop variables after \<open>n\<close> passes, for the loop invariant.\<close>

definition vars_after :: "model \<Rightarrow> bool \<Rightarrow> tensor \<Rightarrow> nat \<Rightarrow> loop_vars" where
  "vars_after m training x n =
     \<lparr>prev_layer = hidden_output m training x n,
      prev_layer_size = input_size m n,
      layer = (if n = 0 then None else Some (hidden_output m training x n)),
      i = (if n = 0 then None else Some (n - 1))\<rparr>"

text \<open>
  The head that the description gives every task of a regressor: the indices are those
  of the last hidden layer, \<open>n_layers - 1\<close>.
\<close>

definition last_layer_head :: "model \<Rightarrow> bool \<Rightarrow> tensor \<Rightarrow> tensor" where
  "last_layer_head m training x =
     (let n_layers = length (layer_sizes m)
      in Squeeze (FullyConnected (hidden_output m training x n_layers)
                    (layer_sizes m ! (n_layers - 1))
                    (TruncatedNormal [layer_sizes m ! (n_layers - 1), 1]
                       (weight_init_stddevs m ! (n_layers - 1)))
                    (Constant (bias_init_consts m ! (n_layers - 1)) [1])))"

text \<open>
  Whether the \<open>size\<close> argument of a head differs from the number of columns of the
  weights it is given.
\<close>

fun size_disagrees :: "tensor \<Rightarrow> bool" where
  "size_disagrees (Squeeze (FullyConnected t size_arg (TruncatedNormal [rows, cols] stddev) b)) =
     (size_arg \<noteq> cols)"
| "size_disagrees t = False"

text \<open>Two configurations to evaluate the methods on.\<close>

definition example_model :: model where
  "example_model =
     \<lparr>n_tasks = 2, n_features = 3, layer_sizes = [4, 5], weight_init_stddevs = [2 / 100, 1 / 2],
      bias_init_consts = [1, 0], dropouts = [1 / 2, 1 / 4], batch_size = 50\<rparr>"

definition unit_model :: model where
  "unit_model =
     \<lparr>n_tasks = 1, n_features = 3, layer_sizes = [1], weight_init_stddevs = [2 / 100],
      bias_init_consts = [1], dropouts = [1 / 2], batch_size = 50\<rparr>"

section \<open>Adversarial training graphs\<close>

text \<open>
  \<^verbatim>\<open>construct_graph\<close> calls four methods that the adversarial classes inherit and
  whose text is not part of the module: \<^verbatim>\<open>add_label_placeholders\<close>,
  \<^verbatim>\<open>add_example_weight_placeholders\<close>, \<^verbatim>\<open>add_training_cost\<close> and
  \<^verbatim>\<open>add_output_ops\<close>. They are parameters of the embedding, whatever they are.
\<close>

record ('l, 'w) inherited_methods =
  add_label_placeholders :: 'l
  add_example_weight_placeholders :: 'w
  add_training_cost :: "outputs \<Rightarrow> 'l \<Rightarrow> 'w \<Rightarrow> tensor"
  add_output_ops :: "outputs \<Rightarrow> outputs"

text \<open>
  The \<^verbatim>\<open>TensorflowGraph\<close> that is returned. The session is \<^verbatim>\<open>None\<close> and the name
  scopes are a cache; neither is kept. \<open>random_seed\<close> is the argument of
  \<^verbatim>\<open>tf.set_random_seed\<close>, when it was called.
\<close>

record ('l, 'w) tensorflow_graph =
  random_seed :: "int option"
  graph_output :: outputs
  labels :: 'l
  weights :: 'w
  loss :: "tensor option"

text \<open>
  \<^verbatim>\<open>get_placeholders\<close>, of either class: a placeholder named \<open>mol_features\<close> of shape
  \<open>[None, n_features]\<close>.
\<close>

definition get_placeholders :: "model \<Rightarrow> tensor" where
  "get_placeholders m = Placeholder [None, Some (n_features m)] ''mol_features''"

text \<open>
  \<^verbatim>\<open>construct_graph\<close> has the same text in both classes (lines 203--248 and 351--396);
  \<open>self.model\<close> is the first argument here.
\<close>

definition construct_graph ::
  "(model \<Rightarrow> tensor \<Rightarrow> bool \<Rightarrow> py_error + outputs) \<Rightarrow> ('l, 'w) inherited_methods \<Rightarrow> model \<Rightarrow>
     bool \<Rightarrow> int option \<Rightarrow> py_error + ('l, 'w) tensorflow_graph" where
  "construct_graph self_model self m training seed =
     (let eps = 1 / 10;
          x = get_placeholders m
      in bind (self_model m x training) (\<lambda>out.
           let labels = add_label_placeholders self;
               weights = add_example_weight_placeholders self
           in if training
              then
                let loss_1 = add_training_cost self out labels weights;
                    grad = Gradients loss_1 x;
                    signed_grad = Sign grad;
                    scaled_signed_grad = Scale eps signed_grad;
                    adv_x = StopGradient (Plus x scaled_signed_grad)
                in bind (self_model m adv_x training) (\<lambda>adv_output.
                     let loss_2 = add_training_cost self adv_output labels weights;
                         loss = DivideBy (Plus loss_1 loss_2) 2
                     in Inr \<lparr>random_seed = seed, graph_output = out, labels = labels,
                             weights = weights, loss = Some loss\<rparr>)
              else
                Inr \<lparr>random_seed = seed, graph_output = add_output_ops self out,
                     labels = labels, weights = weights, loss = None\<rparr>))"

text \<open>\<^verbatim>\<open>TensorflowAdversarialMultiTaskClassifier.construct_graph\<close>\<close>

definition classifier_construct_graph ::
  "('l, 'w) inherited_methods \<Rightarrow> model \<Rightarrow> bool \<Rightarrow> int option \<Rightarrow>
     py_error + ('l, 'w) tensorflow_graph" where
  "classifier_construct_graph = construct_graph classifier_model"

text \<open>\<^verbatim>\<open>TensorflowAdversarialMultiTaskRegressor.construct_graph\<close>\<close>

definition regressor_construct_graph ::
  "('l, 'w) inherited_methods \<Rightarrow> model \<Rightarrow> bool \<Rightarrow> int option \<Rightarrow>
     py_error + ('l, 'w) tensorflow_graph" where
  "regressor_construct_graph = construct_graph regressor_model"

subsection \<open>What the description of the adversarial loss says\<close>

text \<open>
  The outputs of the two model functions on an input tensor \<open>t\<close>, for a checked
  configuration in training mode.
\<close>

definition classifier_outputs :: "model \<Rightarrow> tensor \<Rightarrow> outputs" where
  "classifier_outputs m t =
     MultitaskLogits (hidden_output m True t (length (layer_sizes m))) (n_tasks m)"

definition regressor_outputs :: "model \<Rightarrow> tensor \<Rightarrow> outputs" where
  "regressor_outputs m t = Heads (replicate (nat (n_tasks m)) (last_layer_head m True t))"

text \<open>
  The loss as described, for a model function \<open>f\<close> and the clean placeholder \<open>x\<close>:
  \<open>loss_1\<close> is the training cost of \<open>f\<close> on \<open>x\<close>, the adversarial input is
  \<open>stop_gradient(x + 0.1 * sign(d loss_1 / d x))\<close>, \<open>loss_2\<close> is the training cost of
  the same \<open>f\<close> on the adversarial input, and the total is \<open>(loss_1 + loss_2) / 2\<close>.
\<close>

definition clean_loss :: "('l, 'w) inherited_methods \<Rightarrow> (tensor \<Rightarrow> outputs) \<Rightarrow> tensor \<Rightarrow> tensor" where
  "clean_loss self f x =
     add_training_cost self (f x) (add_label_placeholders self)
       (add_example_weight_placeholders self)"

definition adversarial_input :: "('l, 'w) inherited_methods \<Rightarrow> (tensor \<Rightarrow> outputs) \<Rightarrow> tensor \<Rightarrow> tensor" where
  "adversarial_input self f x =
     StopGradient (Plus x (Scale (1 / 10) (Sign (Gradients (clean_loss self f x) x))))"

definition adversarial_loss :: "('l, 'w) inherited_methods \<Rightarrow> (tensor \<Rightarrow> outputs) \<Rightarrow> tensor \<Rightarrow> tensor" where
  "adversarial_loss self f x =
     DivideBy
       (Plus (clean_loss self f x)
             (add_training_cost self (f (adversarial_input self f x))
                (add_label_placeholders self) (add_example_weight_placeholders self)))
       2"

text \<open>
  Stand-ins for the inherited methods, to evaluate \<^verbatim>\<open>construct_graph\<close> on: one label
  and one weight placeholder, and a cost that adds up the outputs.
\<close>

definition sample_methods :: "(tensor list, tensor list) inherited_methods" where
  "sample_methods =
     \<lparr>add_label_placeholders = [Placeholder [None] ''labels_0''],
      add_example_weight_placeholders = [Placeholder [None] ''weights_0''],
      add_training_cost =
        (\<lambda>out ls ws. case out of MultitaskLogits t n \<Rightarrow> t | Heads hs \<Rightarrow> foldr Plus hs (Constant 0 [])),
      add_output_ops = (\<lambda>out. out)\<rparr>"

section \<open>Feed dictionaries\<close>

text \<open>
  \<^verbatim>\<open>'%d' % n\<close> for a number that \<^verbatim>\<open>range\<close> produced: its decimal digits, without
  sign or leading zeros.
\<close>

definition digit :: "nat \<Rightarrow> char" where
  "digit d = ''0123456789'' ! d"

fun decimal :: "nat \<Rightarrow> string" where
  "decimal n = (if n < 10 then [digit n] else decimal (n div 10) @ [digit (n mod 10)])"

declare decimal.simps [simp del]

text \<open>The keys \<^verbatim>\<open>"labels_%d" % task\<close> and \<^verbatim>\<open>"weights_%d" % task\<close>.\<close>

definition labels_key :: "nat \<Rightarrow> string" where
  "labels_key task = ''labels_'' @ decimal task"

definition weights_key :: "nat \<Rightarrow> string" where
  "weights_key task = ''weights_'' @ decimal task"

text \<open>
  The values that are stored in a feed dictionary. The arrays of a minibatch are values
  of any type \<open>'a\<close>; what the array library and \<^verbatim>\<open>deepchem.metrics.to_one_hot\<close> make
  of them is recorded as the call that was made, as for graph nodes.
\<close>

datatype 'a feed_value =
    Array 'a
      \<comment> \<open>an array of the minibatch, as it came\<close>
  | Column 'a nat
      \<comment> \<open>\<^verbatim>\<open>a[:, task]\<close>\<close>
  | ToOneHot "'a feed_value"
      \<comment> \<open>\<^verbatim>\<open>to_one_hot(...)\<close>\<close>
  | NpSqueeze "'a feed_value"
      \<comment> \<open>\<^verbatim>\<open>np.squeeze(...)\<close>\<close>
  | NpZeros "int list"
      \<comment> \<open>\<^verbatim>\<open>np.zeros(shape)\<close>\<close>
  | NpOnes "int list"
      \<comment> \<open>\<^verbatim>\<open>np.ones(shape)\<close>\<close>

type_synonym 'a orig_dict = "string \<rightharpoonup> 'a feed_value"

subsection \<open>The classifier\<close>

text \<open>
  \<^verbatim>\<open>TensorflowMultiTaskClassifier.construct_feed_dict\<close>, lines 83--96: the loop over the
  tasks stores two entries per task.
\<close>

definition classifier_labels :: "model \<Rightarrow> 'a option \<Rightarrow> nat \<Rightarrow> 'a feed_value" where
  "classifier_labels m y_b task =
     (case y_b of
        Some y \<Rightarrow> ToOneHot (Column y task)
      | None \<Rightarrow> NpSqueeze (ToOneHot (NpZeros [batch_size m])))"

definition task_weights :: "model \<Rightarrow> 'a option \<Rightarrow> nat \<Rightarrow> 'a feed_value" where
  "task_weights m w_b task =
     (case w_b of
        Some w \<Rightarrow> Column w task
      | None \<Rightarrow> NpOnes [batch_size m])"

fun classifier_tasks ::
  "model \<Rightarrow> 'a option \<Rightarrow> 'a option \<Rightarrow> nat list \<Rightarrow> 'a orig_dict \<Rightarrow> 'a orig_dict" where
  "classifier_tasks m y_b w_b [] orig_dict = orig_dict"
| "classifier_tasks m y_b w_b (task # tasks) orig_dict =
     (let orig_dict = orig_dict(labels_key task \<mapsto> classifier_labels m y_b task);
          orig_dict = orig_dict(weights_key task \<mapsto> task_weights m w_b task)
      in classifier_tasks m y_b w_b tasks orig_dict)"

definition classifier_orig_dict :: "model \<Rightarrow> 'a \<Rightarrow> 'a option \<Rightarrow> 'a option \<Rightarrow> 'a orig_dict" where
  "classifier_orig_dict m X_b y_b w_b =
     classifier_tasks m y_b w_b (py_range (n_tasks m)) [''mol_features'' \<mapsto> Array X_b]"

text \<open>
  Line 97: the dictionary goes through \<^verbatim>\<open>TensorflowGraph.get_feed_dict\<close>, which is not
  part of the module and is a parameter.
\<close>

definition classifier_construct_feed_dict ::
  "('a orig_dict \<Rightarrow> 'fd) \<Rightarrow> model \<Rightarrow> 'a \<Rightarrow> 'a option \<Rightarrow> 'a option \<Rightarrow> 'fd" where
  "classifier_construct_feed_dict get_feed_dict m X_b y_b w_b =
     get_feed_dict (classifier_orig_dict m X_b y_b w_b)"

subsection \<open>The regressor\<close>

text \<open>\<^verbatim>\<open>TensorflowMultiTaskRegressor.construct_feed_dict\<close>, lines 173--186.\<close>

definition regressor_labels :: "model \<Rightarrow> 'a option \<Rightarrow> nat \<Rightarrow> 'a feed_value" where
  "regressor_labels m y_b task =
     (case y_b of
        Some y \<Rightarrow> Column y task
      | None \<Rightarrow> NpSqueeze (NpZeros [batch_size m]))"

fun regressor_tasks ::
  "model \<Rightarrow> 'a option \<Rightarrow> 'a option \<Rightarrow> nat list \<Rightarrow> 'a orig_dict \<Rightarrow> 'a orig_dict" where
  "regressor_tasks m y_b w_b [] orig_dict = orig_dict"
| "regressor_tasks m y_b w_b (task # tasks) orig_dict =
     (let orig_dict = orig_dict(labels_key task \<mapsto> regressor_labels m y_b task);
          orig_dict = orig_dict(weights_key task \<mapsto> task_weights m w_b task)
      in regressor_tasks m y_b w_b tasks orig_dict)"

definition regressor_orig_dict :: "model \<Rightarrow> 'a \<Rightarrow> 'a option \<Rightarrow> 'a option \<Rightarrow> 'a orig_dict" where
  "regressor_orig_dict m X_b y_b w_b =
     regressor_tasks m y_b w_b (py_range (n_tasks m)) [''mol_features'' \<mapsto> Array X_b]"

definition regressor_construct_feed_dict ::
  "('a orig_dict \<Rightarrow> 'fd) \<Rightarrow> model \<Rightarrow> 'a \<Rightarrow> 'a option \<Rightarrow> 'a option \<Rightarrow> 'fd" where
  "regressor_construct_feed_dict get_feed_dict m X_b y_b w_b =
     get_feed_dict (regressor_orig_dict m X_b y_b w_b)"

subsection \<open>The keys of a feed dictionary, as described\<close>

definition task_keys :: "int \<Rightarrow> string set" where
  "task_keys n =
     insert ''mol_features''
       (labels_key ` {..< nat n} \<union> weights_key ` {..< nat n})"

section \<open>Training loops\<close>

text \<open>
  The two \<^verbatim>\<open>fit\<close> methods run a session, save checkpoints and draw minibatches; all
  three are outside the module. The state of everything outside (the variables of the
  session, the files, the random numbers of the transformers) is a value of any type
  \<open>'s\<close> that the operations take and return. Beside it the state records what
  \<^verbatim>\<open>fit\<close> did: the \<open>global_step\<close> of every \<^verbatim>\<open>saver.save\<close> and the feed dictionary
  of every training step, in order.
\<close>

record ('s, 'fd) run_state =
  session :: 's
  saved :: "int list"
  fed :: "'fd list"

record ('s, 'fd) session_ops =
  initialize :: "'s \<Rightarrow> 's"
    \<comment> \<open>\<^verbatim>\<open>sess.run(tf.global_variables_initializer())\<close>\<close>
  train_step :: "'fd \<Rightarrow> 's \<Rightarrow> real \<times> 's"
    \<comment> \<open>\<^verbatim>\<open>sess.run(fetches, feed_dict=feed_dict)\<close>: the last fetched value, the loss\<close>
  save_checkpoint :: "int \<Rightarrow> 's \<Rightarrow> 's"
    \<comment> \<open>\<^verbatim>\<open>saver.save(sess, self._save_path, global_step=...)\<close>\<close>

definition saver_save :: "('s, 'fd) session_ops \<Rightarrow> int \<Rightarrow> ('s, 'fd) run_state \<Rightarrow> ('s, 'fd) run_state" where
  "saver_save ops global_step st =
     st\<lparr>session := save_checkpoint ops global_step (session st),
        saved := saved st @ [global_step]\<rparr>"

text \<open>A minibatch \<open>(X_b, y_b, w_b, ids_b)\<close>.\<close>

type_synonym ('a, 'i) batch = "'a \<times> 'a \<times> 'a \<times> 'i"

text \<open>
  The body of the loop over the minibatches computes on \<open>avg_loss\<close> and \<open>n_batches\<close>;
  it is the first argument of the loops, which are the same text in both classes
  (lines 323--338 and 606--632).
\<close>

type_synonym ('s, 'fd, 'a, 'i) batch_body =
  "nat \<Rightarrow> ('a, 'i) batch \<Rightarrow> real \<times> nat \<Rightarrow> ('s, 'fd) run_state \<Rightarrow>
     (py_error + real \<times> nat) \<times> ('s, 'fd) run_state"

text \<open>\<^verbatim>\<open>for ind, (X_b, y_b, w_b, ids_b) in enumerate(dataset.iterbatches(...))\<close>\<close>

fun fit_batches ::
  "('s, 'fd, 'a, 'i) batch_body \<Rightarrow> nat \<Rightarrow> ('a, 'i) batch list \<Rightarrow> real \<times> nat \<Rightarrow>
     ('s, 'fd) run_state \<Rightarrow> (py_error + real \<times> nat) \<times> ('s, 'fd) run_state" where
  "fit_batches body ind [] acc st = (Inr acc, st)"
| "fit_batches body ind (b # bs) acc st =
     (case body ind b acc st of
        (Inl e, st') \<Rightarrow> (Inl e, st')
      | (Inr acc', st') \<Rightarrow> fit_batches body (Suc ind) bs acc' st')"

text \<open>
  One pass through the body of \<^verbatim>\<open>for epoch in range(nb_epoch)\<close>: the minibatches,
  the checkpoint with \<open>global_step=epoch\<close>, then the average loss, a division of a
  float by the integer \<open>n_batches\<close>.
\<close>

definition fit_epoch ::
  "('s, 'fd) session_ops \<Rightarrow> ('s, 'fd, 'a, 'i) batch_body \<Rightarrow> ('a, 'i) batch list \<Rightarrow> int \<Rightarrow>
     ('s, 'fd) run_state \<Rightarrow> (py_error + unit) \<times> ('s, 'fd) run_state" where
  "fit_epoch ops body batches epoch st =
     (case fit_batches body 0 batches (0, 0) st of
        (Inl e, st') \<Rightarrow> (Inl e, st')
      | (Inr (avg_loss, n_batches), st') \<Rightarrow>
          (let st' = saver_save ops epoch st'
           in if n_batches = 0 then (Inl ZeroDivisionError, st') else (Inr (), st')))"

text \<open>
  The loop over the epochs. \<open>iterbatches\<close> gives the minibatches that the dataset yields
  in each epoch. The loop variable \<open>epoch\<close> is unbound until the first pass.
\<close>

fun fit_epochs ::
  "('s, 'fd) session_ops \<Rightarrow> ('s, 'fd, 'a, 'i) batch_body \<Rightarrow> (nat \<Rightarrow> ('a, 'i) batch list) \<Rightarrow>
     nat list \<Rightarrow> int option \<Rightarrow> ('s, 'fd) run_state \<Rightarrow>
     (py_error + int option) \<times> ('s, 'fd) run_state" where
  "fit_epochs ops body iterbatches [] epoch st = (Inr epoch, st)"
| "fit_epochs ops body iterbatches (e # es) epoch st =
     (case fit_epoch ops body (iterbatches e) (int e) st of
        (Inl err, st') \<Rightarrow> (Inl err, st')
      | (Inr u, st') \<Rightarrow> fit_epochs ops body iterbatches es (Some (int e)) st')"

text \<open>
  The whole of \<^verbatim>\<open>fit\<close>: initialise, save with \<open>global_step=0\<close>, run the epochs, save
  with \<open>global_step=epoch+1\<close>.
\<close>

definition fit_loop ::
  "('s, 'fd) session_ops \<Rightarrow> ('s, 'fd, 'a, 'i) batch_body \<Rightarrow> (nat \<Rightarrow> ('a, 'i) batch list) \<Rightarrow>
     int \<Rightarrow> ('s, 'fd) run_state \<Rightarrow> (py_error + unit) \<times> ('s, 'fd) run_state" where
  "fit_loop ops body iterbatches nb_epoch st =
     (let st = st\<lparr>session := initialize ops (session st)\<rparr>;
          st = saver_save ops 0 st
      in case fit_epochs ops body iterbatches (py_range nb_epoch) None st of
           (Inl err, st') \<Rightarrow> (Inl err, st')
         | (Inr None, st') \<Rightarrow> (Inl (NameError ''epoch''), st')
         | (Inr (Some epoch), st') \<Rightarrow> (Inr (), saver_save ops (epoch + 1) st'))"

subsection \<open>The adversarial classifier\<close>

text \<open>
  Lines 327--334. \<^verbatim>\<open>ind % log_every_N_batches\<close> divides by zero when the argument is 0;
  what is logged otherwise is not kept.
\<close>

definition classifier_batch ::
  "('s, 'fd) session_ops \<Rightarrow> ('a orig_dict \<Rightarrow> 'fd) \<Rightarrow> model \<Rightarrow> int \<Rightarrow> ('s, 'fd, 'a, 'i) batch_body" where
  "classifier_batch ops get_feed_dict m log_every_N_batches ind b acc st =
     (case b of (X_b, y_b, w_b, ids_b) \<Rightarrow>
      case acc of (avg_loss, n_batches) \<Rightarrow>
        if log_every_N_batches = 0 then (Inl ZeroDivisionError, st)
        else
          let feed_dict = classifier_construct_feed_dict get_feed_dict m X_b (Some y_b) (Some w_b)
          in case train_step ops feed_dict (session st) of
               (loss_b, s) \<Rightarrow>
                 (Inr (avg_loss + loss_b, n_batches + 1),
                  st\<lparr>session := s, fed := fed st @ [feed_dict]\<rparr>))"

text \<open>\<^verbatim>\<open>TensorflowAdversarialMultiTaskClassifier.fit\<close>\<close>

definition classifier_fit ::
  "('s, 'fd) session_ops \<Rightarrow> ('a orig_dict \<Rightarrow> 'fd) \<Rightarrow> model \<Rightarrow> (nat \<Rightarrow> ('a, 'i) batch list) \<Rightarrow>
     int \<Rightarrow> int \<Rightarrow> ('s, 'fd) run_state \<Rightarrow> (py_error + unit) \<times> ('s, 'fd) run_state" where
  "classifier_fit ops get_feed_dict m iterbatches nb_epoch log_every_N_batches =
     fit_loop ops (classifier_batch ops get_feed_dict m log_every_N_batches) iterbatches nb_epoch"

subsection \<open>The regressor that transforms on the fly\<close>

text \<open>
  A transformer's \<^verbatim>\<open>X_transform\<close> takes an array and gives an array; it may draw random
  numbers, so it takes and returns the outside state too.
\<close>

type_synonym ('a, 's) transformer = "'a \<Rightarrow> 's \<Rightarrow> 'a \<times> 's"

text \<open>\<^verbatim>\<open>for transformer in self.fit_transformers: X_b = transformer.X_transform(X_b)\<close>\<close>

fun X_transform_all :: "('a, 's) transformer list \<Rightarrow> 'a \<Rightarrow> 's \<Rightarrow> 'a \<times> 's" where
  "X_transform_all [] X_b s = (X_b, s)"
| "X_transform_all (transformer # transformers) X_b s =
     (case transformer X_b s of (X_b, s) \<Rightarrow> X_transform_all transformers X_b s)"

text \<open>Lines 611--626; the values computed after the training step are not used.\<close>

definition fit_transform_batch ::
  "('s, 'fd) session_ops \<Rightarrow> ('a orig_dict \<Rightarrow> 'fd) \<Rightarrow> model \<Rightarrow> ('a, 's) transformer list \<Rightarrow> int \<Rightarrow>
     ('s, 'fd, 'a, 'i) batch_body" where
  "fit_transform_batch ops get_feed_dict m fit_transformers log_every_N_batches ind b acc st =
     (case b of (X_b, y_b, w_b, ids_b) \<Rightarrow>
      case acc of (avg_loss, n_batches) \<Rightarrow>
        if log_every_N_batches = 0 then (Inl ZeroDivisionError, st)
        else
          case X_transform_all fit_transformers X_b (session st) of
            (X_b, s) \<Rightarrow>
              let feed_dict = regressor_construct_feed_dict get_feed_dict m X_b (Some y_b) (Some w_b)
              in case train_step ops feed_dict s of
                   (loss_b, s) \<Rightarrow>
                     (Inr (avg_loss + loss_b, n_batches + 1),
                      st\<lparr>session := s, fed := fed st @ [feed_dict]\<rparr>))"

text \<open>\<^verbatim>\<open>TensorflowMultiTaskFitTransformRegressor.fit\<close>\<close>

definition fit_transform_fit ::
  "('s, 'fd) session_ops \<Rightarrow> ('a orig_dict \<Rightarrow> 'fd) \<Rightarrow> model \<Rightarrow> ('a, 's) transformer list \<Rightarrow>
     (nat \<Rightarrow> ('a, 'i) batch list) \<Rightarrow> int \<Rightarrow> int \<Rightarrow> ('s, 'fd) run_state \<Rightarrow>
     (py_error + unit) \<times> ('s, 'fd) run_state" where
  "fit_transform_fit ops get_feed_dict m fit_transformers iterbatches nb_epoch log_every_N_batches =
     fit_loop ops (fit_transform_batch ops get_feed_dict m fit_transformers log_every_N_batches)
       iterbatches nb_epoch"

subsection \<open>The checkpoints as described, and a session to evaluate on\<close>

text \<open>
  The sequence of \<open>global_step\<close>s that is described for \<open>nb_epoch\<close> epochs: 0 before
  training, \<open>e\<close> after each epoch \<open>e\<close> of \<open>[0, nb_epoch)\<close>, and \<open>nb_epoch\<close> at the end.
\<close>

definition described_saves :: "int \<Rightarrow> int list" where
  "described_saves nb_epoch = [0] @ map int [0 ..< nat nb_epoch] @ [nb_epoch]"

text \<open>
  A stand-in for the session: its state counts the training steps, and the loss of a
  step is 1.
\<close>

definition counting_session :: "(nat, 'fd) session_ops" where
  "counting_session =
     \<lparr>initialize = (\<lambda>s. 0), train_step = (\<lambda>feed_dict s. (1, Suc s)),
      save_checkpoint = (\<lambda>global_step s. s)\<rparr>"

definition fresh :: "(nat, 'fd) run_state" where
  "fresh = \<lparr>session = 0, saved = [], fed = []\<rparr>"

text \<open>A dataset of one minibatch, the same in every epoch, and one without minibatches.\<close>

definition one_batch :: "nat \<Rightarrow> (string, string list) batch list" where
  "one_batch e = [(''X'', ''y'', ''w'', [''id0''])]"

definition no_batches :: "nat \<Rightarrow> (string, string list) batch list" where
  "no_batches e = []"

section \<open>Prediction with transformations on the fly\<close>

subsection \<open>Arrays\<close>

text \<open>
  \<^verbatim>\<open>predict_on_batch\<close> branches on the number of dimensions of what the session
  returns, so the arrays it handles are kept with their shape: the dimensions, and the
  elements in row-major order. The elements are real numbers; rounding is not modelled.
\<close>

record ndarray =
  shape :: "nat list"
  elems :: "real list"

text \<open>\<^verbatim>\<open>len(a)\<close>: the first dimension; an array without dimensions has no length.\<close>

definition np_len :: "ndarray \<Rightarrow> py_error + nat" where
  "np_len a = (case shape a of [] \<Rightarrow> Inl TypeError | d # rest \<Rightarrow> Inr d)"

text \<open>
  \<^verbatim>\<open>np.asarray(list, dtype=float)\<close> and \<^verbatim>\<open>np.array(list)\<close> of a list of arrays: the
  arrays stacked along a new first axis. Arrays of different shapes are refused.
\<close>

definition np_array :: "ndarray list \<Rightarrow> py_error + ndarray" where
  "np_array as =
     (case as of
        [] \<Rightarrow> Inr \<lparr>shape = [0], elems = []\<rparr>
      | a # rest \<Rightarrow>
          if list_all (\<lambda>b. shape b = shape a) rest
          then Inr \<lparr>shape = length as # shape a, elems = concat (map elems as)\<rparr>
          else Inl ValueError)"

text \<open>
  \<^verbatim>\<open>a.transpose((1, 0, 2))\<close> of an array of shape \<open>[d0, d1, d2]\<close>, and
  \<^verbatim>\<open>a.transpose((1, 0))\<close> of one of shape \<open>[d0, d1]\<close>: the element at \<open>(j, i, k)\<close> of
  the result is the element at \<open>(i, j, k)\<close> of the array.
\<close>

definition transpose_102 :: "ndarray \<Rightarrow> py_error + ndarray" where
  "transpose_102 a =
     (case shape a of
        [d0, d1, d2] \<Rightarrow>
          Inr \<lparr>shape = [d1, d0, d2],
               elems = concat (map (\<lambda>j. concat (map (\<lambda>i.
                         take d2 (drop (i * d1 * d2 + j * d2) (elems a))) [0 ..< d0])) [0 ..< d1])\<rparr>
      | _ \<Rightarrow> Inl ValueError)"

definition transpose_10 :: "ndarray \<Rightarrow> py_error + ndarray" where
  "transpose_10 a =
     (case shape a of
        [d0, d1] \<Rightarrow>
          Inr \<lparr>shape = [d1, d0],
               elems = concat (map (\<lambda>j. map (\<lambda>i. elems a ! (i * d1 + j)) [0 ..< d0]) [0 ..< d1])\<rparr>
      | _ \<Rightarrow> Inl ValueError)"

text \<open>
  \<^verbatim>\<open>a.reshape((d0, d1))\<close>: the sizes must agree; a second dimension of \<open>-1\<close> is worked
  out from the size.
\<close>

definition reshape_2 :: "ndarray \<Rightarrow> nat \<Rightarrow> int \<Rightarrow> py_error + ndarray" where
  "reshape_2 a d0 d1 =
     (let n = length (elems a)
      in if 0 \<le> d1
         then (if d0 * nat d1 = n then Inr \<lparr>shape = [d0, nat d1], elems = elems a\<rparr>
               else Inl ValueError)
         else if d1 = - 1 \<and> 0 < d0 \<and> n mod d0 = 0
              then Inr \<lparr>shape = [d0, n div d0], elems = elems a\<rparr>
              else Inl ValueError)"

text \<open>\<^verbatim>\<open>a[:n]\<close> for \<open>n \<ge> 0\<close>: the first \<open>n\<close> entries along the first axis.\<close>

definition slice_to :: "ndarray \<Rightarrow> nat \<Rightarrow> py_error + ndarray" where
  "slice_to a n =
     (case shape a of
        [] \<Rightarrow> Inl IndexError
      | d # rest \<Rightarrow>
          Inr \<lparr>shape = min n d # rest, elems = take (min n d * prod_list rest) (elems a)\<rparr>)"

text \<open>\<^verbatim>\<open>np.concatenate(list)\<close>, along the first axis.\<close>

definition np_concatenate :: "ndarray list \<Rightarrow> py_error + ndarray" where
  "np_concatenate as =
     (case as of
        [] \<Rightarrow> Inl ValueError
      | a # rest \<Rightarrow>
          if shape a = [] \<or> \<not> list_all (\<lambda>b. shape b \<noteq> [] \<and> tl (shape b) = tl (shape a)) rest
          then Inl ValueError
          else Inr \<lparr>shape = sum_list (map (\<lambda>b. hd (shape b)) as) # tl (shape a),
                    elems = concat (map elems as)\<rparr>)"

text \<open>\<^verbatim>\<open>np.squeeze(a)\<close>: the dimensions of length 1 are dropped.\<close>

definition np_squeeze :: "ndarray \<Rightarrow> ndarray" where
  "np_squeeze a = \<lparr>shape = filter (\<lambda>d. d \<noteq> 1) (shape a), elems = elems a\<rparr>"

text \<open>
  \<^verbatim>\<open>np.mean(a, axis=0)\<close> of an array with at least one dimension: entry \<open>j\<close> of the
  result is the mean of the entries \<open>j\<close> of the \<open>d\<close> subarrays. It is called on a stack
  of at least one array.
\<close>

definition np_mean_axis0 :: "ndarray \<Rightarrow> py_error + ndarray" where
  "np_mean_axis0 a =
     (case shape a of
        [] \<Rightarrow> Inl ValueError
      | d # rest \<Rightarrow>
          Inr \<lparr>shape = rest,
               elems = map (\<lambda>j. sum_list (map (\<lambda>i. elems a ! (i * prod_list rest + j)) [0 ..< d])
                                 / real d)
                         [0 ..< prod_list rest]\<rparr>)"

text \<open>\<^verbatim>\<open>xs[:n]\<close> for a Python list and integer.\<close>

definition py_slice_to :: "'a list \<Rightarrow> int \<Rightarrow> 'a list" where
  "py_slice_to xs n = (if 0 \<le> n then take (nat n) xs else take (length xs - nat (- n)) xs)"

subsection \<open>\<^verbatim>\<open>TensorflowMultiTaskFitTransformRegressor.predict_on_batch\<close>\<close>

text \<open>
  What is outside the module: \<^verbatim>\<open>self.restore()\<close>, and the evaluation of the graph's
  outputs by the session, which returns one array per output.
\<close>

record ('s, 'fd) eval_ops =
  restore :: "'s \<Rightarrow> 's"
  eval_step :: "'fd \<Rightarrow> 's \<Rightarrow> ndarray list \<times> 's"

text \<open>
  Lines 659--664: the loop that fills \<open>X_evals\<close>. The variable \<open>X_t\<close> is bound by its
  first pass.
\<close>

fun transform_copies ::
  "(ndarray, 's) transformer list \<Rightarrow> ndarray \<Rightarrow> nat list \<Rightarrow> ndarray list \<times> ndarray option \<Rightarrow> 's \<Rightarrow>
     (ndarray list \<times> ndarray option) \<times> 's" where
  "transform_copies fit_transformers X [] vars s = (vars, s)"
| "transform_copies fit_transformers X (k # ks) vars s =
     (case vars of (X_evals, X_t) \<Rightarrow>
      case X_transform_all fit_transformers X s of
        (X_t, s) \<Rightarrow> transform_copies fit_transformers X ks (X_evals @ [X_t], Some X_t) s)"

text \<open>
  Lines 685--702: what is made of the arrays \<open>data\<close> of one run; \<open>tasks\<close> is
  \<open>self.n_tasks\<close>. The branch for one
  dimension assigns \<open>n_samples\<close>, which the later runs see.
\<close>

definition run_output :: "int \<Rightarrow> ndarray \<Rightarrow> nat \<Rightarrow> ndarray list \<Rightarrow> py_error + ndarray \<times> nat" where
  "run_output tasks X n_samples data =
     bind (np_array (py_slice_to data tasks)) (\<lambda>batch_outputs.
     bind (if length (shape batch_outputs) = 3
           then bind (transpose_102 batch_outputs) (\<lambda>t. Inr (t, n_samples))
           else if length (shape batch_outputs) = 2
           then bind (transpose_10 batch_outputs) (\<lambda>t. Inr (t, n_samples))
           else if length (shape batch_outputs) = 1
           then bind (np_len X) (\<lambda>n_samples.
                bind (reshape_2 batch_outputs n_samples tasks) (\<lambda>t. Inr (t, n_samples)))
           else Inl ValueError)
       (\<lambda>(batch_outputs, n_samples).
     bind (slice_to batch_outputs n_samples) (\<lambda>batch_outputs.
     bind (np_concatenate [batch_outputs]) (\<lambda>joined.
       Inr (np_squeeze joined, n_samples)))))"

text \<open>
  Lines 679--702: one run of the session per entry of \<open>X_evals\<close>, on the feed
  dictionary of that entry without labels and weights.
\<close>

fun eval_runs ::
  "('s, 'fd) eval_ops \<Rightarrow> (ndarray orig_dict \<Rightarrow> 'fd) \<Rightarrow> model \<Rightarrow> ndarray \<Rightarrow> ndarray list \<Rightarrow>
     ndarray list \<times> nat \<Rightarrow> 's \<Rightarrow> (py_error + ndarray list) \<times> 's" where
  "eval_runs ops get_feed_dict m X [] vars s = (Inr (fst vars), s)"
| "eval_runs ops get_feed_dict m X (X_e # X_evals) vars s =
     (case vars of (outputs, n_samples) \<Rightarrow>
      let feed_dict = regressor_construct_feed_dict get_feed_dict m X_e None None
      in case eval_step ops feed_dict s of
           (data, s) \<Rightarrow>
             (case run_output (n_tasks m) X n_samples data of
                Inl e \<Rightarrow> (Inl e, s)
              | Inr (out, n_samples) \<Rightarrow>
                  eval_runs ops get_feed_dict m X X_evals (outputs @ [out], n_samples) s))"

text \<open>Lines 704--712: the mean over the runs, and what is returned of it.\<close>

definition mean_of_runs :: "ndarray list \<Rightarrow> nat \<Rightarrow> py_error + ndarray" where
  "mean_of_runs outputs len_unpadded =
     bind (np_array outputs) (\<lambda>stacked.
     bind (np_mean_axis0 stacked) (\<lambda>outputs.
       if length (shape outputs) > 0
       then slice_to outputs len_unpadded
       else Inr \<lparr>shape = [1], elems = elems outputs\<rparr>))"

text \<open>
  The method. \<^verbatim>\<open>pad_features\<close> is not a name of the module, so the padding branch
  cannot run; the constructor sets \<open>pad_batches\<close> to \<open>False\<close>.
\<close>

definition predict_on_batch ::
  "('s, 'fd) eval_ops \<Rightarrow> (ndarray orig_dict \<Rightarrow> 'fd) \<Rightarrow> model \<Rightarrow> (ndarray, 's) transformer list \<Rightarrow>
     int \<Rightarrow> bool \<Rightarrow> bool \<Rightarrow> ndarray \<Rightarrow> 's \<Rightarrow> (py_error + ndarray) \<times> 's" where
  "predict_on_batch ops get_feed_dict m fit_transformers n_evals pad_batches restored_model X s =
     (case transform_copies fit_transformers X (py_range n_evals) ([], None) s of
        ((X_evals, None), s) \<Rightarrow> (Inl (NameError ''X_t''), s)
      | ((X_evals, Some X_t), s) \<Rightarrow>
          (case np_len X_t of
             Inl e \<Rightarrow> (Inl e, s)
           | Inr len_unpadded \<Rightarrow>
               if pad_batches then (Inl (NameError ''pad_features''), s)
               else
                 let s = (if \<not> restored_model then restore ops s else s)
                 in case bind (py_index X_evals 0) np_len of
                      Inl e \<Rightarrow> (Inl e, s)
                    | Inr n_samples \<Rightarrow>
                        (case eval_runs ops get_feed_dict m X X_evals ([], n_samples) s of
                           (Inl e, s) \<Rightarrow> (Inl e, s)
                         | (Inr outputs, s) \<Rightarrow> (mean_of_runs outputs len_unpadded, s))))"

subsection \<open>The mean as described, and a session to evaluate on\<close>

text \<open>
  The elementwise mean of arrays of one shape: entry \<open>j\<close> is the sum of the entries
  \<open>j\<close> divided by the number of arrays.
\<close>

definition elementwise_mean :: "ndarray list \<Rightarrow> ndarray" where
  "elementwise_mean as =
     \<lparr>shape = shape (hd as),
      elems = map (\<lambda>j. sum_list (map (\<lambda>a. elems a ! j) as) / real (length as))
                [0 ..< length (elems (hd as))]\<rparr>"

text \<open>
  A stand-in for the session of a regressor with two tasks that is fed one example:
  each of the two outputs is squeezed to an array without dimensions.
\<close>

definition two_scalars :: "(unit, 'fd) eval_ops" where
  "two_scalars =
     \<lparr>restore = (\<lambda>s. s),
      eval_step = (\<lambda>feed_dict s. ([\<lparr>shape = [], elems = [7]\<rparr>, \<lparr>shape = [], elems = [9]\<rparr>], s))\<rparr>"

definition one_example :: ndarray where
  "one_example = \<lparr>shape = [1, 3], elems = [1, 2, 3]\<rparr>"

text \<open>The same for three examples: each output is a vector of three entries.\<close>

definition two_vectors :: "(unit, 'fd) eval_ops" where
  "two_vectors =
     \<lparr>restore = (\<lambda>s. s),
      eval_step = (\<lambda>feed_dict s.
        ([\<lparr>shape = [3], elems = [1, 2, 3]\<rparr>, \<lparr>shape = [3], elems = [4, 5, 6]\<rparr>], s))\<rparr>"

definition three_examples :: ndarray where
  "three_examples = \<lparr>shape = [3, 1], elems = [1, 2, 3]\<rparr>"

section \<open>The example script\<close>

text \<open>
  \<^verbatim>\<open>examples/gdb7/gdb7_tf_model.py\<close> is a sequence of statements at module level. For
  the names it uses, a statement is the line it starts on, the names it reads, in the
  order of evaluation, and the names it binds. An attribute such as
  \<^verbatim>\<open>dc.feat.ConvMolFeaturizer\<close> reads the name \<open>dc\<close>; keywords of a call are not names.
\<close>

datatype statement = Statement nat "string list" "string list"

text \<open>
  Running a statement: the first name that is read and not bound raises
  \<^verbatim>\<open>NameError\<close>; otherwise the statement binds its names. The calls into the
  libraries are taken to return.
\<close>

fun run_statements :: "string list \<Rightarrow> statement list \<Rightarrow> py_error + string list" where
  "run_statements bound [] = Inr bound"
| "run_statements bound (Statement line_no reads binds # rest) =
     (case filter (\<lambda>name. name \<notin> set bound) reads of
        [] \<Rightarrow> run_statements (bound @ binds) rest
      | name # _ \<Rightarrow> Inl (NameError name))"

text \<open>The builtin that the script uses.\<close>

definition builtins :: "string list" where
  "builtins = [''print'']"

definition gdb7_tf_model :: "statement list" where
  "gdb7_tf_model =
     [Statement 4 [] [''print_function''],
      Statement 5 [] [''division''],
      Statement 6 [] [''unicode_literals''],
      Statement 8 [] [''os''],
      Statement 9 [] [''dc''],
      Statement 10 [] [''np''],
      Statement 11 [] [''load_gdb7'', ''load_gdb7_from_mat''],
      Statement 13 [''np''] [],
      Statement 14 [] [''split''],
      Statement 15 [] [''num_atoms''],
      Statement 18 [''dc''] [''featurizer''],
      Statement 19 [''load_gdb7'', ''featurizer''] [''gdb7_tasks'', ''dataset'', ''transformers''],
      Statement 20 [''datasets''] [''train_dataset'', ''test_dataset''],
      Statement 21 [''train_dataset''] [''n_features''],
      Statement 24 [''dc'', ''dc'', ''dc'', ''dc''] [''regression_metric''],
      Statement 26 [''dc'', ''n_features'', ''np'', ''np'', ''np''] [''model''],
      Statement 33 [''model'', ''train_dataset''] [],
      Statement 34 [''model''] [],
      Statement 36 [''model'', ''train_dataset'', ''regression_metric'', ''transformers'']
        [''train_scores''],
      Statement 37 [''print''] [],
      Statement 38 [''print'', ''train_scores''] [],
      Statement 40 [''model'', ''test_dataset'', ''regression_metric'', ''transformers'']
        [''test_scores''],
      Statement 41 [''print''] [],
      Statement 42 [''print'', ''test_scores''] []]"

text \<open>The statements before line 20, and the script with line 20 reading \<open>dataset\<close>.\<close>

definition before_line_20 :: "statement list" where
  "before_line_20 = take 12 gdb7_tf_model"

section \<open>Transformations on the fly, as described\<close>

text \<open>
  A transformer that draws no random numbers is a function on arrays; the outside state
  passes through it.
\<close>

definition pure_transformer :: "('a \<Rightarrow> 'a) \<Rightarrow> ('a, 's) transformer" where
  "pure_transformer f X s = (f X, s)"

text \<open>
  The outside state before copy \<open>k\<close> of the input is made: every copy before it has
  run the transformers once on the input.
\<close>

definition state_before_copy :: "(ndarray, 's) transformer list \<Rightarrow> ndarray \<Rightarrow> 's \<Rightarrow> nat \<Rightarrow> 's" where
  "state_before_copy fit_transformers X s k =
     ((\<lambda>s. snd (X_transform_all fit_transformers X s)) ^^ k) s"

text \<open>An array is well formed when it has as many elements as its shape says.\<close>

definition well_formed :: "ndarray \<Rightarrow> bool" where
  "well_formed a = (length (elems a) = prod_list (shape a))"

text \<open>A transformer that adds 1 to the first element and counts its calls.\<close>

definition bump_first :: "(ndarray, nat) transformer" where
  "bump_first X s = (X\<lparr>elems := (hd (elems X) + 1) # tl (elems X)\<rparr>, Suc s)"

section \<open>The order of checkpoints and training steps, as described\<close>

text \<open>
  What one minibatch makes of the outside state: the training step on its feed
  dictionary, for the regressor after the transformers have run.
\<close>

definition classifier_step ::
  "('s, 'fd) session_ops \<Rightarrow> ('a orig_dict \<Rightarrow> 'fd) \<Rightarrow> model \<Rightarrow> ('a, 'i) batch \<Rightarrow> 's \<Rightarrow> 's" where
  "classifier_step ops get_feed_dict m b s =
     (case b of (X_b, y_b, w_b, ids_b) \<Rightarrow>
        snd (train_step ops
               (classifier_construct_feed_dict get_feed_dict m X_b (Some y_b) (Some w_b)) s))"

definition fit_transform_step ::
  "('s, 'fd) session_ops \<Rightarrow> ('a orig_dict \<Rightarrow> 'fd) \<Rightarrow> model \<Rightarrow> ('a, 's) transformer list \<Rightarrow>
     ('a, 'i) batch \<Rightarrow> 's \<Rightarrow> 's" where
  "fit_transform_step ops get_feed_dict m fit_transformers b s =
     (case b of (X_b, y_b, w_b, ids_b) \<Rightarrow>
      case X_transform_all fit_transformers X_b s of
        (X_t, s) \<Rightarrow>
          snd (train_step ops
                 (regressor_construct_feed_dict get_feed_dict m X_t (Some y_b) (Some w_b)) s))"

text \<open>
  The outside state after \<^verbatim>\<open>fit\<close>, as described: the variables are initialised and a
  checkpoint is saved with \<open>global_step\<close> 0 before any training; then, for each epoch
  \<open>e\<close> of \<open>[0, nb_epoch)\<close> in turn, all minibatches of the epoch are trained on in order
  and after them a checkpoint is saved with \<open>global_step\<close> \<open>e\<close>; at the end a checkpoint
  is saved with \<open>global_step\<close> \<open>nb_epoch\<close>. \<open>step\<close> is what one minibatch does.
\<close>

definition described_session ::
  "('s, 'fd) session_ops \<Rightarrow> (('a, 'i) batch \<Rightarrow> 's \<Rightarrow> 's) \<Rightarrow> (nat \<Rightarrow> ('a, 'i) batch list) \<Rightarrow>
     int \<Rightarrow> 's \<Rightarrow> 's" where
  "described_session ops step iterbatches nb_epoch s =
     save_checkpoint ops nb_epoch
       (fold (\<lambda>e s. save_checkpoint ops (int e) (fold step (iterbatches e) s))
          [0 ..< nat nb_epoch]
          (save_checkpoint ops 0 (initialize ops s)))"

text \<open>
  A session that writes down what is done to it, in order: its state is the list of
  events so far.
\<close>

datatype event = Initialized | Trained | Saved int

definition logging_session :: "(event list, 'fd) session_ops" where
  "logging_session =
     \<lparr>initialize = (\<lambda>s. s @ [Initialized]),
      train_step = (\<lambda>feed_dict s. (1, s @ [Trained])),
      save_checkpoint = (\<lambda>global_step s. s @ [Saved global_step])\<rparr>"

text \<open>
  The events as described: initialisation and the checkpoint 0, then for each epoch its
  training steps followed by its checkpoint, then the last checkpoint.
\<close>

definition described_events :: "(nat \<Rightarrow> 'b list) \<Rightarrow> int \<Rightarrow> event list" where
  "described_events iterbatches nb_epoch =
     [Initialized, Saved 0] @
     concat (map (\<lambda>e. replicate (length (iterbatches e)) Trained @ [Saved (int e)])
               [0 ..< nat nb_epoch]) @
     [Saved nb_epoch]"

text \<open>A dataset of two minibatches, the same in every epoch.\<close>

definition two_batches :: "nat \<Rightarrow> (string, string list) batch list" where
  "two_batches e = [(''X0'', ''y0'', ''w0'', [''id0'']), (''X1'', ''y1'', ''w1'', [''id1''])]"

section \<open>Properties of graph construction\<close>

subsection \<open>Exceptions and the parameter checks\<close>

lemma bind_Inr [simp]: "bind (Inr v) k = k v"
  by (simp add: bind_def)

lemma bind_Inl [simp]: "bind (Inl e) k = Inl e"
  by (simp add: bind_def)

lemma layer_params_ok_pos: "layer_params_ok m \<Longrightarrow> 0 < length (layer_sizes m)"
  by (auto simp: layer_params_ok_def)

lemma remdups_four_single:
  "length (remdups [a, b, c, d]) = 1 \<longleftrightarrow> a = b \<and> b = c \<and> c = d"
proof -
  have "length (remdups [a, b, c, d]) = card {a, b, c, d}"
    by (simp only: length_remdups_card_conv) simp
  also have "\<dots> = 1 \<longleftrightarrow> (\<exists>x. {a, b, c, d} = {x})"
    by (simp only: One_nat_def card_1_singleton_iff)
  also have "\<dots> \<longleftrightarrow> a = b \<and> b = c \<and> c = d"
    by auto
  finally show ?thesis .
qed

lemma check_layer_params_ok:
  assumes "layer_params_ok m"
  shows "check_layer_params m = Inr (length (layer_sizes m))"
proof -
  let ?n = "length (layer_sizes m)"
  have e: "length (weight_init_stddevs m) = ?n" "length (bias_init_consts m) = ?n"
      "length (dropouts m) = ?n" and pos: "0 < ?n"
    using assms by (auto simp: layer_params_ok_def)
  show ?thesis
    unfolding check_layer_params_def e using pos by simp
qed

lemma check_layer_params_bad:
  assumes "\<not> layer_params_ok m"
  shows "is_assertion_error (check_layer_params m)"
proof (cases "length (remdups [length (layer_sizes m), length (weight_init_stddevs m),
                 length (bias_init_consts m), length (dropouts m)]) = 1")
  case False
  then show ?thesis
    by (simp add: check_layer_params_def is_assertion_error_def)
next
  case True
  then have eq: "length (layer_sizes m) = length (weight_init_stddevs m)"
      "length (weight_init_stddevs m) = length (bias_init_consts m)"
      "length (bias_init_consts m) = length (dropouts m)"
    by (simp_all only: remdups_four_single)
  then have e: "length (weight_init_stddevs m) = length (layer_sizes m)"
      "length (bias_init_consts m) = length (layer_sizes m)"
      "length (dropouts m) = length (layer_sizes m)"
    by auto
  have "length (layer_sizes m) = 0"
    using assms e by (auto simp: layer_params_ok_def)
  then show ?thesis
    unfolding check_layer_params_def e by (simp add: is_assertion_error_def)
qed

subsection \<open>The loop over the hidden layers\<close>

lemma hidden_layers_append:
  "hidden_layers m training (ks @ ks') v =
     bind (hidden_layers m training ks v) (hidden_layers m training ks')"
proof (induction ks arbitrary: v)
  case Nil
  show ?case by simp
next
  case (Cons k ks)
  show ?case
    by (cases "hidden_layer m training k v") (simp_all add: Cons.IH)
qed

lemma hidden_layer_vars_after:
  assumes "k < length (layer_sizes m)" "k < length (weight_init_stddevs m)"
    "k < length (bias_init_consts m)" "k < length (dropouts m)"
  shows "hidden_layer m training k (vars_after m training x k) =
           Inr (vars_after m training x (Suc k))"
  using assms by (simp add: hidden_layer_def py_index_def vars_after_def input_size_def Let_def)

lemma hidden_layers_upt:
  assumes "n \<le> length (layer_sizes m)" "n \<le> length (weight_init_stddevs m)"
    "n \<le> length (bias_init_consts m)" "n \<le> length (dropouts m)"
  shows "hidden_layers m training [0 ..< n] (vars_after m training x 0) =
           Inr (vars_after m training x n)"
  using assms
proof (induction n)
  case 0
  show ?case by simp
next
  case (Suc n)
  then have "hidden_layers m training [0 ..< n] (vars_after m training x 0) =
               Inr (vars_after m training x n)"
    by simp
  moreover have "hidden_layer m training n (vars_after m training x n) =
                   Inr (vars_after m training x (Suc n))"
    using Suc.prems by (intro hidden_layer_vars_after) simp_all
  ultimately show ?case
    by (simp add: hidden_layers_append)
qed

lemma layer_stack_ok:
  assumes "layer_params_ok m"
  shows "layer_stack m x training = Inr (vars_after m training x (length (layer_sizes m)))"
proof -
  have start: "\<lparr>prev_layer = x, prev_layer_size = n_features m, layer = None, i = None\<rparr> =
          vars_after m training x 0"
    by (simp add: vars_after_def input_size_def)
  have "hidden_layers m training [0 ..< length (layer_sizes m)] (vars_after m training x 0) =
          Inr (vars_after m training x (length (layer_sizes m)))"
    using assms by (intro hidden_layers_upt) (auto simp: layer_params_ok_def)
  then show ?thesis
    by (simp add: layer_stack_def check_layer_params_ok [OF assms] start)
qed

lemma layer_stack_bad:
  assumes "\<not> layer_params_ok m"
  shows "is_assertion_error (layer_stack m x training)"
  using check_layer_params_bad [OF assms]
  by (cases "check_layer_params m") (auto simp: layer_stack_def is_assertion_error_def)

subsection \<open>The four graph-building methods on a checked configuration\<close>

lemma task_head_ok:
  assumes "layer_params_ok m"
  shows "task_head m (vars_after m training x (length (layer_sizes m))) =
           Inr (last_layer_head m training x)"
proof -
  let ?n = "length (layer_sizes m)"
  have e: "length (weight_init_stddevs m) = ?n" "length (bias_init_consts m) = ?n"
      "length (dropouts m) = ?n" and pos: "0 < ?n"
    using assms by (auto simp: layer_params_ok_def)
  show ?thesis
    using pos
    by (simp add: task_head_def vars_after_def py_index_def e last_layer_head_def
          input_size_def Let_def)
qed

lemma task_heads_replicate:
  assumes "task_head m v = Inr h"
  shows "task_heads m v tasks out = Inr (out @ replicate (length tasks) h)"
proof (induction tasks arbitrary: out)
  case Nil
  show ?case by simp
next
  case (Cons task tasks)
  show ?case
    by (simp add: assms Cons.IH replicate_app_Cons_same)
qed

lemma task_heads_ok:
  assumes "layer_params_ok m"
  shows "task_heads m (vars_after m training x (length (layer_sizes m)))
           (py_range (n_tasks m)) [] =
         Inr (replicate (nat (n_tasks m)) (last_layer_head m training x))"
  using task_heads_replicate [OF task_head_ok [OF assms], of training x "py_range (n_tasks m)" "[]"]
  by (simp add: py_range_def)

lemma layer_after_ok:
  assumes "layer_params_ok m"
  shows "layer (vars_after m training x (length (layer_sizes m))) =
           Some (hidden_output m training x (length (layer_sizes m)))"
  using layer_params_ok_pos [OF assms] by (simp add: vars_after_def)

lemma classifier_model_ok:
  assumes "layer_params_ok m"
  shows "classifier_model m x training =
           Inr (MultitaskLogits (hidden_output m training x (length (layer_sizes m))) (n_tasks m))"
  by (simp add: classifier_model_def layer_stack_ok [OF assms] layer_after_ok [OF assms])

lemma classifier_build_ok:
  assumes "layer_params_ok m"
  shows "classifier_build m training =
           Inr \<lparr>mol_features = mol_features_placeholder m,
                build_output =
                  MultitaskLogits
                    (hidden_output m training (mol_features_placeholder m)
                       (length (layer_sizes m)))
                    (n_tasks m)\<rparr>"
  by (simp add: classifier_build_def Let_def layer_stack_ok [OF assms]
        layer_after_ok [OF assms])

lemma regressor_model_ok:
  assumes "layer_params_ok m"
  shows "regressor_model m x training =
           Inr (Heads (replicate (nat (n_tasks m)) (last_layer_head m training x)))"
  by (simp add: regressor_model_def layer_stack_ok [OF assms] task_heads_ok [OF assms])

lemma regressor_build_ok:
  assumes "layer_params_ok m"
  shows "regressor_build m training =
           Inr \<lparr>mol_features = mol_features_placeholder m,
                build_output =
                  Heads (replicate (nat (n_tasks m))
                    (last_layer_head m training (mol_features_placeholder m)))\<rparr>"
  by (simp add: regressor_build_def Let_def layer_stack_ok [OF assms]
        task_heads_ok [OF assms])

lemma is_assertion_error_bind:
  "is_assertion_error r \<Longrightarrow> is_assertion_error (bind r k)"
  by (auto simp: is_assertion_error_def bind_def split: sum.splits py_error.splits)

lemma builders_bad:
  assumes "\<not> layer_params_ok m"
  shows "is_assertion_error (classifier_build m training)"
    "is_assertion_error (regressor_build m training)"
    "is_assertion_error (classifier_model m x training)"
    "is_assertion_error (regressor_model m x training)"
  by (simp_all add: classifier_build_def regressor_build_def classifier_model_def
        regressor_model_def Let_def is_assertion_error_bind layer_stack_bad [OF assms])

subsection \<open>The claims about graph construction\<close>

text \<open>
  Claim C2. For every configuration whose four layer parameter lists have one common,
  non-zero length, \<^verbatim>\<open>TensorflowMultiTaskClassifier.build\<close> creates the placeholder
  \<open>mol_features\<close> of shape \<open>[None, n_features]\<close>, stacks \<open>n_layers\<close> hidden layers on it
  as \<open>hidden_output\<close> describes them (layer \<open>i\<close> is the dropout of the rectified fully
  connected layer of size \<open>layer_sizes[i]\<close> over the layer before, with weights of shape
  \<open>[prev_layer_size, layer_sizes[i]]\<close>, deviation \<open>weight_init_stddevs[i]\<close> and bias
  \<open>bias_init_consts[i]\<close>), and returns the multitask logits of the last layer for
  \<open>n_tasks\<close> tasks.
\<close>

theorem classifier_build_stack:
  assumes "layer_params_ok m"
  shows "classifier_build m training =
           Inr \<lparr>mol_features = Placeholder [None, Some (n_features m)] ''mol_features'',
                build_output =
                  MultitaskLogits
                    (hidden_output m training
                       (Placeholder [None, Some (n_features m)] ''mol_features'')
                       (length (layer_sizes m)))
                    (n_tasks m)\<rparr>"
  using classifier_build_ok [OF assms, of training]
  by (simp add: mol_features_placeholder_def)

text \<open>The theorem at a configuration with two hidden layers, the stack written out.\<close>

theorem classifier_build_stack_witness:
  "layer_params_ok example_model \<and>
   classifier_build example_model True =
     Inr \<lparr>mol_features = Placeholder [None, Some 3] ''mol_features'',
          build_output =
            MultitaskLogits
              (Dropout
                 (Relu (FullyConnected
                    (Dropout
                       (Relu (FullyConnected (Placeholder [None, Some 3] ''mol_features'') 4
                                (TruncatedNormal [3, 4] (2 / 100)) (Constant 1 [4])))
                       (1 / 2) True)
                    5 (TruncatedNormal [4, 5] (1 / 2)) (Constant 0 [5])))
                 (1 / 4) True)
              2\<rparr>"
proof -
  have ok: "layer_params_ok example_model"
    by (simp add: layer_params_ok_def example_model_def)
  show ?thesis
    using ok classifier_build_stack [OF ok, of True]
    by (simp add: example_model_def input_size_def)
qed

text \<open>
  Claim C5. Each of the four graph-building methods (\<open>build\<close> of the classifier and of
  the regressor, \<open>model\<close> of the two adversarial variants) raises \<^verbatim>\<open>AssertionError\<close>
  exactly when the four layer parameter lists do not have one common length greater than
  zero; when they do, the checks pass and \<open>n_layers\<close> is that common length.
\<close>

theorem layer_param_assertions:
  "is_assertion_error (classifier_build m training) = (\<not> layer_params_ok m) \<and>
   is_assertion_error (regressor_build m training) = (\<not> layer_params_ok m) \<and>
   is_assertion_error (classifier_model m x training) = (\<not> layer_params_ok m) \<and>
   is_assertion_error (regressor_model m x training) = (\<not> layer_params_ok m) \<and>
   (layer_params_ok m \<longrightarrow> check_layer_params m = Inr (length (layer_sizes m)))"
proof (cases "layer_params_ok m")
  case True
  then show ?thesis
    by (simp add: classifier_build_ok regressor_build_ok classifier_model_ok
          regressor_model_ok check_layer_params_ok is_assertion_error_def)
next
  case False
  then show ?thesis
    by (simp add: builders_bad)
qed

text \<open>
  The theorem at a good configuration, at one with a dropout list that is too short and
  at one with no layers.
\<close>

theorem layer_param_assertions_witness:
  "\<not> is_assertion_error (classifier_build example_model True) \<and>
   \<not> is_assertion_error (regressor_build example_model True) \<and>
   check_layer_params example_model = Inr 2 \<and>
   is_assertion_error
     (classifier_build (example_model\<lparr>dropouts := [1 / 2]\<rparr>) True) \<and>
   is_assertion_error
     (regressor_model
        (example_model\<lparr>layer_sizes := [], weight_init_stddevs := [], bias_init_consts := [],
           dropouts := []\<rparr>) (Placeholder [None, Some 3] ''mol_features'') True)"
proof -
  have ok: "layer_params_ok example_model"
    by (simp add: layer_params_ok_def example_model_def)
  have bad1: "\<not> layer_params_ok (example_model\<lparr>dropouts := [1 / 2]\<rparr>)"
    by (simp add: layer_params_ok_def example_model_def)
  have bad2: "\<not> layer_params_ok (example_model\<lparr>layer_sizes := [], weight_init_stddevs := [],
      bias_init_consts := [], dropouts := []\<rparr>)"
    by (simp add: layer_params_ok_def example_model_def)
  have len: "length (layer_sizes example_model) = 2"
    by (simp add: example_model_def)
  show ?thesis
    using ok bad1 bad2 len
      layer_param_assertions [of example_model True "Placeholder [None, Some 3] ''mol_features''"]
      layer_param_assertions [of "example_model\<lparr>dropouts := [1 / 2]\<rparr>" True
        "Placeholder [None, Some 3] ''mol_features''"]
      layer_param_assertions [of "example_model\<lparr>layer_sizes := [], weight_init_stddevs := [],
        bias_init_consts := [], dropouts := []\<rparr>" True
        "Placeholder [None, Some 3] ''mol_features''"]
    by simp
qed

text \<open>
  Claim C7, amended. On a checked configuration, \<^verbatim>\<open>TensorflowMultiTaskRegressor.build\<close>
  and \<^verbatim>\<open>TensorflowAdversarialMultiTaskRegressor.model\<close> give every one of the
  \<open>n_tasks\<close> heads the values that the loop variable \<open>i\<close> has after the hidden-layer
  loop, \<open>n_layers - 1\<close>: the size argument is \<open>layer_sizes[n_layers - 1]\<close>, the weights
  have shape \<open>[layer_sizes[n_layers - 1], 1]\<close> and deviation
  \<open>weight_init_stddevs[n_layers - 1]\<close>, the bias has shape \<open>[1]\<close> and the constant
  \<open>bias_init_consts[n_layers - 1]\<close>. The size argument differs from the one column of
  the weights exactly when \<open>layer_sizes[n_layers - 1]\<close> is not 1.
\<close>

theorem regressor_heads_reuse_last_index:
  assumes "layer_params_ok m"
  shows "regressor_build m training =
           Inr \<lparr>mol_features = Placeholder [None, Some (n_features m)] ''mol_features'',
                build_output =
                  Heads (replicate (nat (n_tasks m))
                    (last_layer_head m training
                       (Placeholder [None, Some (n_features m)] ''mol_features'')))\<rparr> \<and>
         regressor_model m x training =
           Inr (Heads (replicate (nat (n_tasks m)) (last_layer_head m training x))) \<and>
         size_disagrees (last_layer_head m training x) =
           (layer_sizes m ! (length (layer_sizes m) - 1) \<noteq> 1)"
  using regressor_build_ok [OF assms, of training] regressor_model_ok [OF assms, of x training]
  by (simp add: mol_features_placeholder_def) (simp add: last_layer_head_def Let_def)

text \<open>The theorem at the configuration with two hidden layers and two tasks.\<close>

theorem regressor_heads_reuse_last_index_witness:
  "layer_params_ok example_model \<and>
   regressor_model example_model (Placeholder [None, Some 3] ''mol_features'') False =
     Inr (Heads (replicate 2
       (last_layer_head example_model False (Placeholder [None, Some 3] ''mol_features'')))) \<and>
   last_layer_head example_model False (Placeholder [None, Some 3] ''mol_features'') =
     Squeeze (FullyConnected
       (hidden_output example_model False (Placeholder [None, Some 3] ''mol_features'') 2)
       5 (TruncatedNormal [5, 1] (1 / 2)) (Constant 0 [1])) \<and>
   size_disagrees (last_layer_head example_model False (Placeholder [None, Some 3] ''mol_features''))"
proof -
  have ok: "layer_params_ok example_model"
    by (simp add: layer_params_ok_def example_model_def)
  have fields: "n_tasks example_model = 2" "layer_sizes example_model = [4, 5]"
      "weight_init_stddevs example_model = [2 / 100, 1 / 2]"
      "bias_init_consts example_model = [1, 0]"
    by (simp_all add: example_model_def)
  have head: "last_layer_head example_model False (Placeholder [None, Some 3] ''mol_features'') =
     Squeeze (FullyConnected
       (hidden_output example_model False (Placeholder [None, Some 3] ''mol_features'') 2)
       5 (TruncatedNormal [5, 1] (1 / 2)) (Constant 0 [1]))"
    by (simp add: last_layer_head_def fields numeral_2_eq_2)
  have last: "layer_sizes example_model ! (length (layer_sizes example_model) - 1) = 5"
    unfolding fields by simp
  show ?thesis
    using ok regressor_heads_reuse_last_index [OF ok, of False "Placeholder [None, Some 3] ''mol_features''"]
    unfolding last by (simp add: fields(1) head)
qed

text \<open>
  Claim C7 as it was stated says that the size argument disagrees with the weight shape
  for every head. With a last hidden layer of size 1 the head gets the size argument 1
  and weights of shape \<open>[1, 1]\<close>: they agree.
\<close>

theorem size_argument_disagrees_counterexample:
  "regressor_build unit_model True =
     Inr \<lparr>mol_features = Placeholder [None, Some 3] ''mol_features'',
          build_output =
            Heads [Squeeze (FullyConnected
              (Dropout
                 (Relu (FullyConnected (Placeholder [None, Some 3] ''mol_features'') 1
                          (TruncatedNormal [3, 1] (2 / 100)) (Constant 1 [1])))
                 (1 / 2) True)
              1 (TruncatedNormal [1, 1] (2 / 100)) (Constant 1 [1]))]\<rparr> \<and>
   \<not> size_disagrees
       (Squeeze (FullyConnected
          (Dropout
             (Relu (FullyConnected (Placeholder [None, Some 3] ''mol_features'') 1
                      (TruncatedNormal [3, 1] (2 / 100)) (Constant 1 [1])))
             (1 / 2) True)
          1 (TruncatedNormal [1, 1] (2 / 100)) (Constant 1 [1])))"
  by (simp add: regressor_build_def layer_stack_def check_layer_params_def unit_model_def
        hidden_layer_def py_index_def py_range_def task_head_def mol_features_placeholder_def
        Let_def)

section \<open>Properties of the adversarial training graphs\<close>

lemma construct_graph_training:
  assumes "\<And>t. self_model m t True = Inr (f t)"
  shows "construct_graph self_model self m True seed =
           Inr \<lparr>random_seed = seed, graph_output = f (get_placeholders m),
                labels = add_label_placeholders self,
                weights = add_example_weight_placeholders self,
                loss = Some (adversarial_loss self f (get_placeholders m))\<rparr>"
  by (simp add: construct_graph_def assms Let_def adversarial_loss_def adversarial_input_def
        clean_loss_def)

text \<open>
  Claim C1. With \<open>training=True\<close> and a checked configuration, \<^verbatim>\<open>construct_graph\<close> of
  \<^verbatim>\<open>TensorflowAdversarialMultiTaskClassifier\<close> and of
  \<^verbatim>\<open>TensorflowAdversarialMultiTaskRegressor\<close> returns a graph whose loss is
  \<open>(loss_1 + loss_2) / 2\<close>, where \<open>loss_1\<close> is the training cost of the class's model
  function on the clean placeholder \<open>x\<close>, and \<open>loss_2\<close> is the training cost of the same
  model function on \<open>adv_x = stop_gradient(x + 0.1 * sign(d loss_1 / d x))\<close>.
\<close>

theorem adversarial_training_loss:
  assumes "layer_params_ok m"
  shows "classifier_construct_graph self m True seed =
           Inr \<lparr>random_seed = seed,
                graph_output = classifier_outputs m (get_placeholders m),
                labels = add_label_placeholders self,
                weights = add_example_weight_placeholders self,
                loss = Some (adversarial_loss self (classifier_outputs m) (get_placeholders m))\<rparr> \<and>
         regressor_construct_graph self m True seed =
           Inr \<lparr>random_seed = seed,
                graph_output = regressor_outputs m (get_placeholders m),
                labels = add_label_placeholders self,
                weights = add_example_weight_placeholders self,
                loss = Some (adversarial_loss self (regressor_outputs m) (get_placeholders m))\<rparr> \<and>
         adversarial_loss self f x =
           DivideBy
             (Plus (clean_loss self f x)
                (add_training_cost self
                   (f (StopGradient (Plus x
                         (Scale (1 / 10) (Sign (Gradients (clean_loss self f x) x))))))
                   (add_label_placeholders self) (add_example_weight_placeholders self)))
             2"
proof -
  have c: "classifier_model m t True = Inr (classifier_outputs m t)" for t
    by (simp add: classifier_model_ok [OF assms] classifier_outputs_def)
  have r: "regressor_model m t True = Inr (regressor_outputs m t)" for t
    by (simp add: regressor_model_ok [OF assms] regressor_outputs_def)
  show ?thesis
    unfolding classifier_construct_graph_def regressor_construct_graph_def
    by (simp add: construct_graph_training [of classifier_model, OF c]
          construct_graph_training [of regressor_model, OF r])
       (simp add: adversarial_loss_def adversarial_input_def)
qed

text \<open>
  The theorem at the configuration with one hidden layer, with the stand-ins for the
  inherited methods, the classifier's loss written out.
\<close>

theorem adversarial_training_loss_witness:
  "layer_params_ok unit_model \<and>
   map_sum id loss (classifier_construct_graph sample_methods unit_model True (Some 123)) =
     Inr (Some (DivideBy
       (Plus
          (Dropout (Relu (FullyConnected (Placeholder [None, Some 3] ''mol_features'') 1
             (TruncatedNormal [3, 1] (2 / 100)) (Constant 1 [1]))) (1 / 2) True)
          (Dropout (Relu (FullyConnected
             (StopGradient (Plus (Placeholder [None, Some 3] ''mol_features'')
                (Scale (1 / 10) (Sign (Gradients
                   (Dropout (Relu (FullyConnected (Placeholder [None, Some 3] ''mol_features'') 1
                      (TruncatedNormal [3, 1] (2 / 100)) (Constant 1 [1]))) (1 / 2) True)
                   (Placeholder [None, Some 3] ''mol_features''))))))
             1 (TruncatedNormal [3, 1] (2 / 100)) (Constant 1 [1]))) (1 / 2) True))
       2))"
proof -
  have ok: "layer_params_ok unit_model"
    by (simp add: layer_params_ok_def unit_model_def)
  have fields: "layer_sizes unit_model = [1]" "n_features unit_model = 3"
      "weight_init_stddevs unit_model = [2 / 100]" "bias_init_consts unit_model = [1]"
      "dropouts unit_model = [1 / 2]" "n_tasks unit_model = 1"
    by (simp_all add: unit_model_def)
  have out: "classifier_outputs unit_model t =
      MultitaskLogits (Dropout (Relu (FullyConnected t 1
             (TruncatedNormal [3, 1] (2 / 100)) (Constant 1 [1]))) (1 / 2) True) 1" for t
    by (simp add: classifier_outputs_def fields input_size_def)
  show ?thesis
    using ok adversarial_training_loss [OF ok, of sample_methods "Some 123"]
    by (simp add: adversarial_loss_def adversarial_input_def clean_loss_def out
          sample_methods_def get_placeholders_def fields(2))
qed

section \<open>Properties of the feed dictionaries\<close>

subsection \<open>Decimal numerals name their number\<close>

lemma digit_inj: "a < 10 \<Longrightarrow> b < 10 \<Longrightarrow> digit a = digit b \<Longrightarrow> a = b"
proof -
  assume a: "a < 10" and b: "b < 10" and e: "digit a = digit b"
  have "distinct ''0123456789''" by simp
  moreover have "length ''0123456789'' = 10" by simp
  ultimately show "a = b"
    using a b e unfolding digit_def by (metis nth_eq_iff_index_eq)
qed

lemma decimal_not_Nil: "decimal n \<noteq> []"
  by (subst decimal.simps) simp

lemma decimal_inj: "decimal a = decimal b \<Longrightarrow> a = b"
proof (induction a arbitrary: b rule: decimal.induct)
  case (1 n)
  show ?case
  proof (cases "n < 10")
    case small: True
    show ?thesis
    proof (cases "b < 10")
      case True
      with small "1.prems" show ?thesis
        by (simp add: decimal.simps [of n] decimal.simps [of b] digit_inj)
    next
      case False
      then have "decimal b = decimal (b div 10) @ [digit (b mod 10)]"
        by (subst decimal.simps) simp
      moreover have "decimal n = [digit n]"
        using small by (subst decimal.simps) simp
      ultimately show ?thesis
        using "1.prems" decimal_not_Nil [of "b div 10"] by simp
    qed
  next
    case big: False
    then have n: "decimal n = decimal (n div 10) @ [digit (n mod 10)]"
      by (subst decimal.simps) simp
    show ?thesis
    proof (cases "b < 10")
      case True
      then have "decimal b = [digit b]" by (subst decimal.simps) simp
      then show ?thesis
        using "1.prems" n decimal_not_Nil [of "n div 10"] by simp
    next
      case False
      then have b: "decimal b = decimal (b div 10) @ [digit (b mod 10)]"
        by (subst decimal.simps) simp
      from "1.prems" n b have e: "decimal (n div 10) = decimal (b div 10)"
          and d: "digit (n mod 10) = digit (b mod 10)"
        by simp_all
      have "n div 10 = b div 10"
        using "1.IH" [OF big e] .
      moreover have "n mod 10 = b mod 10"
        using d by (intro digit_inj) simp_all
      ultimately show ?thesis
        by (metis div_mult_mod_eq)
    qed
  qed
qed


subsection \<open>The loops over the tasks\<close>

lemma keys_simps:
  "labels_key a = labels_key b \<longleftrightarrow> a = b"
  "weights_key a = weights_key b \<longleftrightarrow> a = b"
  "labels_key a \<noteq> weights_key b"
  "weights_key a \<noteq> labels_key b"
  "labels_key a \<noteq> ''mol_features''"
  "weights_key a \<noteq> ''mol_features''"
  "''mol_features'' \<noteq> labels_key a"
  "''mol_features'' \<noteq> weights_key a"
  by (auto simp: labels_key_def weights_key_def dest: decimal_inj)

lemma classifier_tasks_other:
  assumes "\<And>t. t \<in> set tasks \<Longrightarrow> k \<noteq> labels_key t \<and> k \<noteq> weights_key t"
  shows "classifier_tasks m y_b w_b tasks d k = d k"
  using assms by (induction tasks arbitrary: d) (simp_all add: Let_def)

lemma classifier_tasks_labels:
  assumes "t \<in> set tasks"
  shows "classifier_tasks m y_b w_b tasks d (labels_key t) = Some (classifier_labels m y_b t)"
  using assms
proof (induction tasks arbitrary: d)
  case Nil
  then show ?case by simp
next
  case (Cons a tasks)
  show ?case
  proof (cases "t \<in> set tasks")
    case True
    then show ?thesis by (simp add: Let_def Cons.IH)
  next
    case False
    with Cons.prems have [simp]: "a = t" by simp
    have "classifier_tasks m y_b w_b tasks d' (labels_key t) = d' (labels_key t)" for d'
      using False by (intro classifier_tasks_other) (auto simp: keys_simps)
    then show ?thesis by (simp add: Let_def keys_simps)
  qed
qed

lemma classifier_tasks_weights:
  assumes "t \<in> set tasks"
  shows "classifier_tasks m y_b w_b tasks d (weights_key t) = Some (task_weights m w_b t)"
  using assms
proof (induction tasks arbitrary: d)
  case Nil
  then show ?case by simp
next
  case (Cons a tasks)
  show ?case
  proof (cases "t \<in> set tasks")
    case True
    then show ?thesis by (simp add: Let_def Cons.IH)
  next
    case False
    with Cons.prems have [simp]: "a = t" by simp
    have "classifier_tasks m y_b w_b tasks d' (weights_key t) = d' (weights_key t)" for d'
      using False by (intro classifier_tasks_other) (auto simp: keys_simps)
    then show ?thesis by (simp add: Let_def keys_simps)
  qed
qed

lemma classifier_tasks_dom:
  "dom (classifier_tasks m y_b w_b tasks d) =
     dom d \<union> labels_key ` set tasks \<union> weights_key ` set tasks"
  by (induction tasks arbitrary: d) (auto simp: Let_def)

lemma classifier_orig_dict_entries:
  "classifier_orig_dict m X_b y_b w_b ''mol_features'' = Some (Array X_b)"
  "t < nat (n_tasks m) \<Longrightarrow>
     classifier_orig_dict m X_b y_b w_b (labels_key t) = Some (classifier_labels m y_b t)"
  "t < nat (n_tasks m) \<Longrightarrow>
     classifier_orig_dict m X_b y_b w_b (weights_key t) = Some (task_weights m w_b t)"
  "dom (classifier_orig_dict m X_b y_b w_b) = task_keys (n_tasks m)"
proof -
  show "classifier_orig_dict m X_b y_b w_b ''mol_features'' = Some (Array X_b)"
    unfolding classifier_orig_dict_def
    by (subst classifier_tasks_other) (simp_all add: keys_simps)
  show "t < nat (n_tasks m) \<Longrightarrow>
     classifier_orig_dict m X_b y_b w_b (labels_key t) = Some (classifier_labels m y_b t)"
    unfolding classifier_orig_dict_def by (rule classifier_tasks_labels) (simp add: py_range_def)
  show "t < nat (n_tasks m) \<Longrightarrow>
     classifier_orig_dict m X_b y_b w_b (weights_key t) = Some (task_weights m w_b t)"
    unfolding classifier_orig_dict_def by (rule classifier_tasks_weights) (simp add: py_range_def)
  show "dom (classifier_orig_dict m X_b y_b w_b) = task_keys (n_tasks m)"
    unfolding classifier_orig_dict_def classifier_tasks_dom task_keys_def py_range_def
    by (simp add: lessThan_atLeast0)
qed

lemma regressor_tasks_other:
  assumes "\<And>t. t \<in> set tasks \<Longrightarrow> k \<noteq> labels_key t \<and> k \<noteq> weights_key t"
  shows "regressor_tasks m y_b w_b tasks d k = d k"
  using assms by (induction tasks arbitrary: d) (simp_all add: Let_def)

lemma regressor_tasks_labels:
  assumes "t \<in> set tasks"
  shows "regressor_tasks m y_b w_b tasks d (labels_key t) = Some (regressor_labels m y_b t)"
  using assms
proof (induction tasks arbitrary: d)
  case Nil
  then show ?case by simp
next
  case (Cons a tasks)
  show ?case
  proof (cases "t \<in> set tasks")
    case True
    then show ?thesis by (simp add: Let_def Cons.IH)
  next
    case False
    with Cons.prems have [simp]: "a = t" by simp
    have "regressor_tasks m y_b w_b tasks d' (labels_key t) = d' (labels_key t)" for d'
      using False by (intro regressor_tasks_other) (auto simp: keys_simps)
    then show ?thesis by (simp add: Let_def keys_simps)
  qed
qed

lemma regressor_tasks_weights:
  assumes "t \<in> set tasks"
  shows "regressor_tasks m y_b w_b tasks d (weights_key t) = Some (task_weights m w_b t)"
  using assms
proof (induction tasks arbitrary: d)
  case Nil
  then show ?case by simp
next
  case (Cons a tasks)
  show ?case
  proof (cases "t \<in> set tasks")
    case True
    then show ?thesis by (simp add: Let_def Cons.IH)
  next
    case False
    with Cons.prems have [simp]: "a = t" by simp
    have "regressor_tasks m y_b w_b tasks d' (weights_key t) = d' (weights_key t)" for d'
      using False by (intro regressor_tasks_other) (auto simp: keys_simps)
    then show ?thesis by (simp add: Let_def keys_simps)
  qed
qed

lemma regressor_tasks_dom:
  "dom (regressor_tasks m y_b w_b tasks d) =
     dom d \<union> labels_key ` set tasks \<union> weights_key ` set tasks"
  by (induction tasks arbitrary: d) (auto simp: Let_def)

lemma regressor_orig_dict_entries:
  "regressor_orig_dict m X_b y_b w_b ''mol_features'' = Some (Array X_b)"
  "t < nat (n_tasks m) \<Longrightarrow>
     regressor_orig_dict m X_b y_b w_b (labels_key t) = Some (regressor_labels m y_b t)"
  "t < nat (n_tasks m) \<Longrightarrow>
     regressor_orig_dict m X_b y_b w_b (weights_key t) = Some (task_weights m w_b t)"
  "dom (regressor_orig_dict m X_b y_b w_b) = task_keys (n_tasks m)"
proof -
  show "regressor_orig_dict m X_b y_b w_b ''mol_features'' = Some (Array X_b)"
    unfolding regressor_orig_dict_def
    by (subst regressor_tasks_other) (simp_all add: keys_simps)
  show "t < nat (n_tasks m) \<Longrightarrow>
     regressor_orig_dict m X_b y_b w_b (labels_key t) = Some (regressor_labels m y_b t)"
    unfolding regressor_orig_dict_def by (rule regressor_tasks_labels) (simp add: py_range_def)
  show "t < nat (n_tasks m) \<Longrightarrow>
     regressor_orig_dict m X_b y_b w_b (weights_key t) = Some (task_weights m w_b t)"
    unfolding regressor_orig_dict_def by (rule regressor_tasks_weights) (simp add: py_range_def)
  show "dom (regressor_orig_dict m X_b y_b w_b) = task_keys (n_tasks m)"
    unfolding regressor_orig_dict_def regressor_tasks_dom task_keys_def py_range_def
    by (simp add: lessThan_atLeast0)
qed

text \<open>
  Claim C6. For every minibatch, \<^verbatim>\<open>TensorflowMultiTaskClassifier.construct_feed_dict\<close>
  hands \<^verbatim>\<open>get_feed_dict\<close> a dictionary that maps \<open>mol_features\<close> to \<open>X_b\<close> and,
  for every task \<open>t\<close> in \<open>[0, n_tasks)\<close>, \<open>labels_t\<close> to \<open>to_one_hot(y_b[:, t])\<close> (to
  the squeezed one-hot of a zero vector of length \<open>batch_size\<close> when \<open>y_b\<close> is
  \<open>None\<close>) and \<open>weights_t\<close> to \<open>w_b[:, t]\<close> (to a vector of ones of length
  \<open>batch_size\<close> when \<open>w_b\<close> is \<open>None\<close>), and has no other key. The regressor's
  dictionary is the same with labels that are not one-hot encoded: the column
  \<open>y_b[:, t]\<close> as it is, or the squeezed zero vector.
\<close>

theorem construct_feed_dict_entries:
  "classifier_construct_feed_dict get_feed_dict m X_b y_b w_b =
     get_feed_dict (classifier_orig_dict m X_b y_b w_b) \<and>
   classifier_orig_dict m X_b y_b w_b ''mol_features'' = Some (Array X_b) \<and>
   (\<forall>t < nat (n_tasks m).
      classifier_orig_dict m X_b y_b w_b (labels_key t) =
        Some (case y_b of
                Some y \<Rightarrow> ToOneHot (Column y t)
              | None \<Rightarrow> NpSqueeze (ToOneHot (NpZeros [batch_size m]))) \<and>
      classifier_orig_dict m X_b y_b w_b (weights_key t) =
        Some (case w_b of Some w \<Rightarrow> Column w t | None \<Rightarrow> NpOnes [batch_size m])) \<and>
   dom (classifier_orig_dict m X_b y_b w_b) = task_keys (n_tasks m) \<and>
   regressor_construct_feed_dict get_feed_dict m X_b y_b w_b =
     get_feed_dict (regressor_orig_dict m X_b y_b w_b) \<and>
   regressor_orig_dict m X_b y_b w_b ''mol_features'' = Some (Array X_b) \<and>
   (\<forall>t < nat (n_tasks m).
      regressor_orig_dict m X_b y_b w_b (labels_key t) =
        Some (case y_b of
                Some y \<Rightarrow> Column y t
              | None \<Rightarrow> NpSqueeze (NpZeros [batch_size m])) \<and>
      regressor_orig_dict m X_b y_b w_b (weights_key t) =
        Some (case w_b of Some w \<Rightarrow> Column w t | None \<Rightarrow> NpOnes [batch_size m])) \<and>
   dom (regressor_orig_dict m X_b y_b w_b) = task_keys (n_tasks m)"
  by (simp add: classifier_construct_feed_dict_def regressor_construct_feed_dict_def
        classifier_orig_dict_entries regressor_orig_dict_entries
        classifier_labels_def regressor_labels_def task_weights_def)

text \<open>
  The theorem at the configuration with two tasks, once with labels and no weights and
  once with weights and no labels.
\<close>

theorem construct_feed_dict_entries_witness:
  "classifier_orig_dict example_model ''X'' (Some ''y'') None ''labels_1'' =
     Some (ToOneHot (Column ''y'' 1)) \<and>
   classifier_orig_dict example_model ''X'' (Some ''y'') None ''weights_0'' =
     Some (NpOnes [50]) \<and>
   regressor_orig_dict example_model ''X'' None (Some ''w'') ''labels_0'' =
     Some (NpSqueeze (NpZeros [50])) \<and>
   regressor_orig_dict example_model ''X'' None (Some ''w'') ''weights_1'' =
     Some (Column ''w'' 1) \<and>
   regressor_orig_dict example_model ''X'' None (Some ''w'') ''mol_features'' =
     Some (Array ''X'')"
proof -
  have n: "nat (n_tasks example_model) = 2" and b: "batch_size example_model = 50"
    by (simp_all add: example_model_def)
  have k: "labels_key 0 = ''labels_0''" "labels_key (Suc 0) = ''labels_1''"
      "weights_key 0 = ''weights_0''" "weights_key (Suc 0) = ''weights_1''"
    by (simp_all add: labels_key_def weights_key_def decimal.simps [of 0]
          decimal.simps [of "Suc 0"] digit_def)
  have "\<forall>t<2. P t \<Longrightarrow> P 0 \<and> P 1" for P :: "nat \<Rightarrow> bool"
    by simp
  note two = this
  from construct_feed_dict_entries [of id example_model "''X''" "Some ''y''" None]
  have c: "classifier_orig_dict example_model ''X'' (Some ''y'') None ''labels_1'' =
             Some (ToOneHot (Column ''y'' 1))"
     "classifier_orig_dict example_model ''X'' (Some ''y'') None ''weights_0'' =
             Some (NpOnes [50])"
    unfolding n b by (auto dest!: two simp: k)
  from construct_feed_dict_entries [of id example_model "''X''" None "Some ''w''"]
  have r: "regressor_orig_dict example_model ''X'' None (Some ''w'') ''labels_0'' =
             Some (NpSqueeze (NpZeros [50]))"
     "regressor_orig_dict example_model ''X'' None (Some ''w'') ''weights_1'' =
             Some (Column ''w'' 1)"
     "regressor_orig_dict example_model ''X'' None (Some ''w'') ''mol_features'' =
             Some (Array ''X'')"
    unfolding n b by (auto dest!: two simp: k)
  from c r show ?thesis by simp
qed

section \<open>Properties of the transformations on the fly\<close>

subsection \<open>The transformers of a minibatch\<close>

lemma X_transform_all_append:
  "X_transform_all (ts1 @ ts2) X s =
     (case X_transform_all ts1 X s of (X1, s1) \<Rightarrow> X_transform_all ts2 X1 s1)"
  by (induction ts1 arbitrary: X s) (simp_all split: prod.splits)

lemma X_transform_all_pure:
  "X_transform_all (map pure_transformer fs) X s = (fold (\<lambda>f X. f X) fs X, s)"
  by (induction fs arbitrary: X) (simp_all add: pure_transformer_def)

lemma fit_transform_batch_fed:
  assumes "log_every_N_batches \<noteq> 0"
  shows "fed (snd (fit_transform_batch ops get_feed_dict m ts log_every_N_batches ind
                     (X_b, y_b, w_b, ids_b) acc st)) =
           fed st @ [regressor_construct_feed_dict get_feed_dict m
                       (fst (X_transform_all ts X_b (session st))) (Some y_b) (Some w_b)]"
  using assms
  by (cases acc) (simp add: fit_transform_batch_def Let_def split: prod.splits)

subsection \<open>The copies that are predicted on\<close>

lemma transform_copies_general:
  "transform_copies ts X ks (ev, xt) s =
     ((ev @ map (\<lambda>k. fst (X_transform_all ts X (state_before_copy ts X s k))) [0 ..< length ks],
       if ks = [] then xt
       else Some (fst (X_transform_all ts X (state_before_copy ts X s (length ks - 1))))),
      state_before_copy ts X s (length ks))"
proof (induction ks arbitrary: ev xt s)
  case Nil
  show ?case by (simp add: state_before_copy_def)
next
  case (Cons k ks)
  obtain X1 s1 where r: "X_transform_all ts X s = (X1, s1)"
    by (cases "X_transform_all ts X s")
  have shift: "state_before_copy ts X s (Suc j) = state_before_copy ts X s1 j" for j
    unfolding state_before_copy_def using r by (simp only: funpow_Suc_right o_apply snd_conv)
  have zero: "state_before_copy ts X s 0 = s"
    by (simp add: state_before_copy_def)
  have "map (\<lambda>k. fst (X_transform_all ts X (state_before_copy ts X s k))) [0 ..< Suc (length ks)] =
        X1 # map (\<lambda>k. fst (X_transform_all ts X (state_before_copy ts X s1 k))) [0 ..< length ks]"
  proof -
    have "[0 ..< Suc (length ks)] = 0 # map Suc [0 ..< length ks]"
      by (simp only: map_Suc_upt) (simp add: upt_conv_Cons del: upt_Suc)
    then show ?thesis
      by (simp only: list.map map_map o_def shift zero r fst_conv)
  qed
  moreover have "ks \<noteq> [] \<Longrightarrow> state_before_copy ts X s (length ks) =
      state_before_copy ts X s1 (length ks - 1)"
    using shift [of "length ks - 1"] by simp
  ultimately show ?case
    using r by (simp add: Cons.IH shift zero del: upt_Suc)
qed

subsection \<open>The mean over runs of one shape\<close>

lemma nth_concat_equal_length:
  assumes "\<And>xs. xs \<in> set xss \<Longrightarrow> length xs = n" "k < length xss" "j < n"
  shows "concat xss ! (k * n + j) = xss ! k ! j"
  using assms
proof (induction xss arbitrary: k)
  case Nil
  then show ?case by simp
next
  case (Cons xs xss)
  have len: "length xs = n"
    using Cons.prems(1) by simp
  show ?case
  proof (cases k)
    case 0
    then show ?thesis
      using Cons.prems(3) len by (simp add: nth_append)
  next
    case (Suc k')
    then have "concat xss ! (k' * n + j) = xss ! k' ! j"
      using Cons.prems by (intro Cons.IH) simp_all
    then show ?thesis
      using Suc len by (simp add: nth_append)
  qed
qed

lemma mean_elems:
  assumes "as \<noteq> []" "\<And>a. a \<in> set as \<Longrightarrow> length (elems a) = n"
  shows "map (\<lambda>j. sum_list (map (\<lambda>k. concat (map elems as) ! (k * n + j)) [0 ..< length as])
                     / real (length as)) [0 ..< n] =
         map (\<lambda>j. sum_list (map (\<lambda>a. elems a ! j) as) / real (length as)) [0 ..< n]"
proof (rule map_cong [OF refl])
  fix j assume "j \<in> set [0 ..< n]"
  then have j: "j < n" by simp
  have "map (\<lambda>k. concat (map elems as) ! (k * n + j)) [0 ..< length as] =
        map (\<lambda>k. elems (as ! k) ! j) [0 ..< length as]"
  proof (rule map_cong [OF refl])
    fix k assume "k \<in> set [0 ..< length as]"
    then have k: "k < length (map elems as)" by simp
    have "concat (map elems as) ! (k * n + j) = map elems as ! k ! j"
      using assms(2) by (intro nth_concat_equal_length [OF _ k j]) auto
    then show "concat (map elems as) ! (k * n + j) = elems (as ! k) ! j"
      using k by simp
  qed
  also have "\<dots> = map (\<lambda>a. elems a ! j) (map (\<lambda>k. as ! k) [0 ..< length as])"
    by (simp only: map_map o_def)
  also have "\<dots> = map (\<lambda>a. elems a ! j) as"
    by (simp only: map_nth)
  finally show "sum_list (map (\<lambda>k. concat (map elems as) ! (k * n + j)) [0 ..< length as])
                  / real (length as) =
                sum_list (map (\<lambda>a. elems a ! j) as) / real (length as)"
    by simp
qed


lemma mean_of_stack:
  assumes "as \<noteq> []" "\<And>a. a \<in> set as \<Longrightarrow> shape a = sh \<and> well_formed a"
  shows "bind (np_array as) np_mean_axis0 = Inr (elementwise_mean as)"
proof -
  obtain a rest where as: "as = a # rest"
    using assms(1) by (cases as) auto
  have sh: "shape a = sh" and all: "list_all (\<lambda>b. shape b = shape a) rest"
    using assms(2) as by (auto simp: list_all_iff)
  have len: "\<And>b. b \<in> set as \<Longrightarrow> length (elems b) = prod_list sh"
    using assms(2) by (auto simp: well_formed_def)
  have stack: "np_array as = Inr \<lparr>shape = length as # sh, elems = concat (map elems as)\<rparr>"
    using all sh by (simp add: np_array_def as)
  have hd: "shape (hd as) = sh" "length (elems (hd as)) = prod_list sh"
    using sh len as by simp_all
  show ?thesis
    unfolding stack using mean_elems [OF assms(1) len]
    by (simp add: np_mean_axis0_def elementwise_mean_def hd bind_def)
qed

subsection \<open>What holds of the description of the transformations\<close>

text \<open>
  In \<^verbatim>\<open>TensorflowMultiTaskFitTransformRegressor.fit\<close>, when \<open>log_every_N_batches\<close> is
  not 0, a minibatch adds one feed dictionary, built from the array that the
  transformers made of \<open>X_b\<close> and from \<open>y_b\<close> and \<open>w_b\<close> as they came. The transformers
  run in list order: a list run after another continues on its result, a list of one is
  that transformer, and transformers that are functions are folded over the array from
  the head of the list.
\<close>

theorem fit_transforms_in_list_order:
  assumes "log_every_N_batches \<noteq> 0"
  shows "fed (snd (fit_transform_batch ops get_feed_dict m fit_transformers log_every_N_batches ind
                     (X_b, y_b, w_b, ids_b) acc st)) =
           fed st @ [regressor_construct_feed_dict get_feed_dict m
                       (fst (X_transform_all fit_transformers X_b (session st)))
                       (Some y_b) (Some w_b)] \<and>
         X_transform_all (ts1 @ ts2) X s =
           (case X_transform_all ts1 X s of (X1, s1) \<Rightarrow> X_transform_all ts2 X1 s1) \<and>
         X_transform_all [t] X s = t X s \<and>
         X_transform_all (map pure_transformer fs) X s = (fold (\<lambda>f X. f X) fs X, s)"
  using fit_transform_batch_fed [OF assms]
  by (simp add: X_transform_all_append X_transform_all_pure split: prod.splits)

text \<open>The theorem for two transformers that append a letter each.\<close>

theorem fit_transforms_in_list_order_witness:
  "fed (snd (fit_transform_batch counting_session id example_model
               [pure_transformer (\<lambda>X. X @ ''a''), pure_transformer (\<lambda>X. X @ ''b'')] 50 0
               (''X'', ''y'', ''w'', [''id0'']) (0, 0) fresh)) =
     [regressor_orig_dict example_model ''Xab'' (Some ''y'') (Some ''w'')]"
proof -
  have t: "X_transform_all (map pure_transformer [\<lambda>X. X @ ''a'', \<lambda>X. X @ ''b'']) ''X'' (0::nat) =
             (''Xab'', 0)"
    by (simp add: pure_transformer_def)
  have n: "(50::int) \<noteq> 0" by simp
  show ?thesis
    using fit_transforms_in_list_order [OF n, of counting_session id example_model
        "map pure_transformer [\<lambda>X. X @ ''a'', \<lambda>X. X @ ''b'']" 0 "''X''" "''y''" "''w''"
        "[''id0'']" "(0, 0)" fresh, THEN conjunct1] t
    by (simp add: fresh_def regressor_construct_feed_dict_def)
qed

text \<open>
  In \<^verbatim>\<open>predict_on_batch\<close> the list \<open>X_evals\<close> has \<open>n_evals\<close> entries, and each is made
  by the transformers from the input \<open>X\<close> itself, not from the copy before; only the
  outside state passes from one copy to the next. \<open>X_t\<close> is the last copy, and is
  unbound when \<open>n_evals \<le> 0\<close>.
\<close>

theorem transform_copies_independent:
  "transform_copies fit_transformers X (py_range n_evals) ([], None) s =
     ((map (\<lambda>k. fst (X_transform_all fit_transformers X
                         (state_before_copy fit_transformers X s k))) [0 ..< nat n_evals],
       if n_evals \<le> 0 then None
       else Some (fst (X_transform_all fit_transformers X
                         (state_before_copy fit_transformers X s (nat n_evals - 1))))),
      state_before_copy fit_transformers X s (nat n_evals))"
  by (simp add: transform_copies_general py_range_def)

text \<open>The theorem for two copies and a transformer that counts its calls.\<close>

theorem transform_copies_independent_witness:
  "transform_copies [bump_first] one_example (py_range 2) ([], None) 0 =
     (([\<lparr>shape = [1, 3], elems = [2, 2, 3]\<rparr>, \<lparr>shape = [1, 3], elems = [2, 2, 3]\<rparr>],
       Some \<lparr>shape = [1, 3], elems = [2, 2, 3]\<rparr>), 2)"
proof -
  have b: "X_transform_all [bump_first] one_example s = (\<lparr>shape = [1, 3], elems = [2, 2, 3]\<rparr>, Suc s)"
    for s
    by (simp add: bump_first_def one_example_def)
  have st: "state_before_copy [bump_first] X 0 k = k" for k and X :: ndarray
    by (induction k) (simp_all add: state_before_copy_def bump_first_def)
  show ?thesis
    using transform_copies_independent [of "[bump_first]" one_example 2 0]
    by (simp add: st upt_conv_Cons numeral_2_eq_2 bump_first_def one_example_def)
qed

text \<open>
  When the outputs of the runs are well-formed arrays of one shape with at least one
  dimension, and the first dimension is not more than the length of the input, what
  \<^verbatim>\<open>predict_on_batch\<close> returns of them is their elementwise mean.
\<close>

theorem mean_of_runs_is_elementwise_mean:
  assumes "outputs \<noteq> []"
    and "\<forall>a \<in> set outputs. shape a = d # rest \<and> well_formed a"
    and "d \<le> len_unpadded"
  shows "mean_of_runs outputs len_unpadded = Inr (elementwise_mean outputs)"
proof -
  have m: "bind (np_array outputs) np_mean_axis0 = Inr (elementwise_mean outputs)"
    using assms(2) by (intro mean_of_stack [OF assms(1), of "d # rest"]) simp
  have sh: "shape (elementwise_mean outputs) = d # rest"
    using assms(1,2) by (cases outputs) (simp_all add: elementwise_mean_def)
  have "length (elems (hd outputs)) = d * prod_list rest"
    using assms(1,2) by (cases outputs) (simp_all add: well_formed_def)
  then have len: "length (elems (elementwise_mean outputs)) = d * prod_list rest"
    by (simp add: elementwise_mean_def)
  have mn: "min len_unpadded d = d"
    using assms(3) by simp
  have "\<lparr>shape = d # rest, elems = elems (elementwise_mean outputs)\<rparr> = elementwise_mean outputs"
    using sh by (cases "elementwise_mean outputs") simp
  then have "slice_to (elementwise_mean outputs) len_unpadded = Inr (elementwise_mean outputs)"
    unfolding slice_to_def sh by (simp add: mn len)
  then show ?thesis
    using m unfolding mean_of_runs_def
    by (cases "np_array outputs") (simp_all add: sh bind_def)
qed

text \<open>The theorem for two runs on three examples and two tasks.\<close>

theorem mean_of_runs_is_elementwise_mean_witness:
  "mean_of_runs [\<lparr>shape = [3, 2], elems = [1, 4, 2, 5, 3, 6]\<rparr>,
                 \<lparr>shape = [3, 2], elems = [3, 6, 4, 7, 5, 8]\<rparr>] 3 =
     Inr \<lparr>shape = [3, 2], elems = [2, 5, 3, 6, 4, 7]\<rparr>"
proof -
  have e: "elementwise_mean [\<lparr>shape = [3, 2], elems = [1, 4, 2, 5, 3, 6]\<rparr>,
                 \<lparr>shape = [3, 2], elems = [3, 6, 4, 7, 5, 8]\<rparr>] =
            \<lparr>shape = [3, 2], elems = [2, 5, 3, 6, 4, 7]\<rparr>"
    by code_simp
  have h: "[\<lparr>shape = [3, 2], elems = [1, 4, 2, 5, 3, 6]\<rparr>,
            \<lparr>shape = [3, 2], elems = [3, 6, 4, 7, 5, 8 :: real]\<rparr>] \<noteq> []"
     "\<forall>a \<in> set [\<lparr>shape = [3, 2], elems = [1, 4, 2, 5, 3, 6]\<rparr>,
            \<lparr>shape = [3, 2], elems = [3, 6, 4, 7, 5, 8]\<rparr>]. shape a = 3 # [2] \<and> well_formed a"
     "(3::nat) \<le> 3"
    by (simp_all add: well_formed_def)
  show ?thesis
    using mean_of_runs_is_elementwise_mean [OF h] by (simp only: e)
qed

section \<open>Properties of the training loops\<close>

subsection \<open>Loops whose body runs through\<close>

text \<open>
  A body runs through when it returns normally, counts its minibatch and saves no
  checkpoint. Both bodies do when \<open>log_every_N_batches\<close> is not 0.
\<close>

lemma fit_batches_steady:
  assumes "\<And>ind b acc st. \<exists>l st'. body ind b acc st = (Inr (fst acc + l, Suc (snd acc)), st') \<and>
             saved st' = saved st \<and> session st' = step b (session st)"
  shows "\<exists>l st'. fit_batches body ind bs acc st = (Inr (fst acc + l, snd acc + length bs), st') \<and>
           saved st' = saved st \<and> session st' = fold step bs (session st)"
proof (induction bs arbitrary: ind acc st)
  case Nil
  show ?case by (rule exI [of _ 0], rule exI [of _ st]) simp
next
  case (Cons b bs)
  from assms [of ind b acc st] obtain l st1
    where b: "body ind b acc st = (Inr (fst acc + l, Suc (snd acc)), st1)"
      and s1: "saved st1 = saved st" and t1: "session st1 = step b (session st)"
    by blast
  from Cons.IH [of "Suc ind" "(fst acc + l, Suc (snd acc))" st1] obtain l' st2
    where r: "fit_batches body (Suc ind) bs (fst acc + l, Suc (snd acc)) st1 =
                (Inr (fst acc + l + l', Suc (snd acc) + length bs), st2)"
      and s2: "saved st2 = saved st1" and t2: "session st2 = fold step bs (session st1)"
    by auto
  show ?case
    using b r s1 s2 t1 t2 by (auto simp: add.assoc)
qed

lemma fit_epoch_steady:
  assumes "\<And>ind b acc st. \<exists>l st'. body ind b acc st = (Inr (fst acc + l, Suc (snd acc)), st') \<and>
             saved st' = saved st \<and> session st' = step b (session st)"
    and "bs \<noteq> []"
  shows "\<exists>st'. fit_epoch ops body bs e st = (Inr (), st') \<and> saved st' = saved st @ [e] \<and>
           session st' = save_checkpoint ops e (fold step bs (session st))"
proof -
  from fit_batches_steady [of body step 0 bs "(0, 0)" st, OF assms(1)] obtain l st1
    where r: "fit_batches body 0 bs (0, 0) st = (Inr (l, length bs), st1)"
      and s: "saved st1 = saved st" and t: "session st1 = fold step bs (session st)"
    by auto
  show ?thesis
    using r s t assms(2) by (simp add: fit_epoch_def saver_save_def)
qed

lemma fit_epochs_steady:
  assumes "\<And>ind b acc st. \<exists>l st'. body ind b acc st = (Inr (fst acc + l, Suc (snd acc)), st') \<and>
             saved st' = saved st \<and> session st' = step b (session st)"
    and "\<And>e. e \<in> set es \<Longrightarrow> iterbatches e \<noteq> []"
  shows "\<exists>st'. fit_epochs ops body iterbatches es epoch st =
                 (Inr (if es = [] then epoch else Some (int (last es))), st') \<and>
               saved st' = saved st @ map int es \<and>
               session st' =
                 fold (\<lambda>e s. save_checkpoint ops (int e) (fold step (iterbatches e) s)) es
                   (session st)"
  using assms(2)
proof (induction es arbitrary: epoch st)
  case Nil
  show ?case by simp
next
  case (Cons e es)
  have "iterbatches e \<noteq> []"
    using Cons.prems by simp
  from fit_epoch_steady [of body step "iterbatches e" ops "int e" st, OF assms(1) this] obtain st1
    where r: "fit_epoch ops body (iterbatches e) (int e) st = (Inr (), st1)"
      and s: "saved st1 = saved st @ [int e]"
      and t: "session st1 = save_checkpoint ops (int e) (fold step (iterbatches e) (session st))"
    by blast
  from Cons.IH [of "Some (int e)" st1] Cons.prems obtain st2
    where r2: "fit_epochs ops body iterbatches es (Some (int e)) st1 =
                 (Inr (if es = [] then Some (int e) else Some (int (last es))), st2)"
      and s2: "saved st2 = saved st1 @ map int es"
      and t2: "session st2 =
                 fold (\<lambda>e s. save_checkpoint ops (int e) (fold step (iterbatches e) s)) es
                   (session st1)"
    by auto
  show ?case
    using r s t r2 s2 t2 by simp
qed

lemma fit_loop_steady:
  assumes "\<And>ind b acc st. \<exists>l st'. body ind b acc st = (Inr (fst acc + l, Suc (snd acc)), st') \<and>
             saved st' = saved st \<and> session st' = step b (session st)"
    and "1 \<le> nb_epoch"
    and "\<forall>e < nat nb_epoch. iterbatches e \<noteq> []"
  shows "fst (fit_loop ops body iterbatches nb_epoch st) = Inr () \<and>
         saved (snd (fit_loop ops body iterbatches nb_epoch st)) = saved st @ described_saves nb_epoch \<and>
         session (snd (fit_loop ops body iterbatches nb_epoch st)) =
           described_session ops step iterbatches nb_epoch (session st)"
proof -
  let ?st0 = "saver_save ops 0 (st\<lparr>session := initialize ops (session st)\<rparr>)"
  have ne: "py_range nb_epoch \<noteq> []" and la: "int (last (py_range nb_epoch)) = nb_epoch - 1"
    using assms(2) by (simp_all add: py_range_def)
  have "\<And>e. e \<in> set (py_range nb_epoch) \<Longrightarrow> iterbatches e \<noteq> []"
    using assms(3) by (simp add: py_range_def)
  from fit_epochs_steady [of body step "py_range nb_epoch" iterbatches ops None ?st0,
      OF assms(1) this]
  obtain st1 where r: "fit_epochs ops body iterbatches (py_range nb_epoch) None ?st0 =
        (Inr (Some (nb_epoch - 1)), st1)"
      and s: "saved st1 = saved ?st0 @ map int (py_range nb_epoch)"
      and t: "session st1 =
                fold (\<lambda>e s. save_checkpoint ops (int e) (fold step (iterbatches e) s))
                  (py_range nb_epoch) (session ?st0)"
    using ne la by auto
  show ?thesis
    using r s t
    by (simp add: fit_loop_def Let_def saver_save_def described_saves_def py_range_def
          described_session_def)
qed

subsection \<open>The session that writes down its events\<close>

lemma logged_minibatches:
  assumes "\<And>b s. step b s = s @ [Trained]"
  shows "fold step bs s = s @ replicate (length bs) Trained"
  by (induction bs arbitrary: s) (simp_all add: assms replicate_app_Cons_same)

lemma logged_epochs:
  assumes "\<And>b s. step b s = s @ [Trained]"
  shows "fold (\<lambda>e s. save_checkpoint logging_session (int e) (fold step (iterbatches e) s)) es s =
           s @ concat (map (\<lambda>e. replicate (length (iterbatches e)) Trained @ [Saved (int e)]) es)"
  by (induction es arbitrary: s) (simp_all add: logged_minibatches [OF assms] logging_session_def)

lemma logged_session:
  assumes "\<And>b s. step b s = s @ [Trained]"
  shows "described_session logging_session step iterbatches nb_epoch s =
           s @ described_events iterbatches nb_epoch"
  by (simp add: described_session_def described_events_def logged_epochs [OF assms])
     (simp add: logging_session_def)

lemma classifier_step_logged:
  "classifier_step logging_session get_feed_dict m b s = s @ [Trained]"
  by (cases b) (simp add: classifier_step_def logging_session_def)

lemma fit_transform_step_logged:
  "fit_transform_step logging_session get_feed_dict m (map pure_transformer fs) b s = s @ [Trained]"
  by (cases b)
     (simp add: fit_transform_step_def logging_session_def X_transform_all_pure)

subsection \<open>Loops that raise\<close>

lemma fit_loop_no_epochs:
  "fit_loop ops body iterbatches 0 st =
     (Inl (NameError ''epoch''),
      \<lparr>session = save_checkpoint ops 0 (initialize ops (session st)),
       saved = saved st @ [0], fed = fed st\<rparr>)"
  by (simp add: fit_loop_def py_range_def saver_save_def)

lemma fit_loop_no_batches:
  assumes "1 \<le> nb_epoch" "iterbatches 0 = []"
  shows "fit_loop ops body iterbatches nb_epoch st =
     (Inl ZeroDivisionError,
      \<lparr>session = save_checkpoint ops 0 (save_checkpoint ops 0 (initialize ops (session st))),
       saved = saved st @ [0, 0], fed = fed st\<rparr>)"
proof -
  have "py_range nb_epoch = 0 # [1 ..< nat nb_epoch]"
    using assms(1) by (simp add: py_range_def upt_conv_Cons)
  then show ?thesis
    using assms(2) by (simp add: fit_loop_def fit_epoch_def saver_save_def)
qed

subsection \<open>The two bodies\<close>

lemma classifier_batch_steady:
  assumes "log_every_N_batches \<noteq> 0"
  shows "\<exists>l st'. classifier_batch ops get_feed_dict m log_every_N_batches ind b acc st =
                   (Inr (fst acc + l, Suc (snd acc)), st') \<and> saved st' = saved st \<and>
                 session st' = classifier_step ops get_feed_dict m b (session st)"
  using assms
  by (cases b, cases acc)
     (auto simp: classifier_batch_def classifier_step_def Let_def split: prod.splits)

lemma fit_transform_batch_steady:
  assumes "log_every_N_batches \<noteq> 0"
  shows "\<exists>l st'. fit_transform_batch ops get_feed_dict m ts log_every_N_batches ind b acc st =
                   (Inr (fst acc + l, Suc (snd acc)), st') \<and> saved st' = saved st \<and>
                 session st' = fit_transform_step ops get_feed_dict m ts b (session st)"
  using assms
  by (cases b, cases acc)
     (auto simp: fit_transform_batch_def fit_transform_step_def Let_def split: prod.splits)

subsection \<open>The claims about checkpoints and exceptions\<close>

text \<open>
  Claim C4, amended. For every call of \<^verbatim>\<open>fit\<close> (of the adversarial classifier or of
  the regressor that transforms on the fly) with \<open>nb_epoch \<ge> 1\<close>, with
  \<open>log_every_N_batches\<close> other than 0 and a dataset that yields at least one minibatch in
  every epoch, \<^verbatim>\<open>fit\<close> returns and the checkpoints it saved are exactly: one with
  \<open>global_step\<close> 0 before training, one with \<open>global_step\<close> \<open>e\<close> after each epoch \<open>e\<close>
  of \<open>[0, nb_epoch)\<close>, and a last one with \<open>global_step\<close> \<open>nb_epoch\<close>; so the checkpoint
  after the first epoch has \<open>global_step\<close> 0 again. The order is part of the statement:
  the state of the session at the end is the one that \<open>described_session\<close> builds, with
  the checkpoint 0 saved on the initialised state before any training step and the
  checkpoint of an epoch saved after all training steps of that epoch; on the session
  that writes down its events, the events are those of \<open>described_events\<close>.
\<close>

theorem checkpoint_sequence:
  assumes "1 \<le> nb_epoch" "log_every_N_batches \<noteq> 0" "\<forall>e < nat nb_epoch. iterbatches e \<noteq> []"
  shows "fst (classifier_fit ops get_feed_dict m iterbatches nb_epoch log_every_N_batches st) = Inr () \<and>
         saved (snd (classifier_fit ops get_feed_dict m iterbatches nb_epoch log_every_N_batches st)) =
           saved st @ described_saves nb_epoch \<and>
         fst (fit_transform_fit ops get_feed_dict m fit_transformers iterbatches nb_epoch
                log_every_N_batches st) = Inr () \<and>
         saved (snd (fit_transform_fit ops get_feed_dict m fit_transformers iterbatches nb_epoch
                log_every_N_batches st)) =
           saved st @ described_saves nb_epoch \<and>
         described_saves nb_epoch ! 0 = 0 \<and> described_saves nb_epoch ! 1 = 0 \<and>
         session (snd (classifier_fit ops get_feed_dict m iterbatches nb_epoch
                         log_every_N_batches st)) =
           described_session ops (classifier_step ops get_feed_dict m) iterbatches nb_epoch
             (session st) \<and>
         session (snd (fit_transform_fit ops get_feed_dict m fit_transformers iterbatches nb_epoch
                         log_every_N_batches st)) =
           described_session ops (fit_transform_step ops get_feed_dict m fit_transformers)
             iterbatches nb_epoch (session st) \<and>
         session (snd (classifier_fit logging_session get_feed_dict m iterbatches nb_epoch
                         log_every_N_batches lst)) =
           session lst @ described_events iterbatches nb_epoch \<and>
         session (snd (fit_transform_fit logging_session get_feed_dict m (map pure_transformer fs)
                         iterbatches nb_epoch log_every_N_batches lst)) =
           session lst @ described_events iterbatches nb_epoch"
proof -
  have first: "described_saves nb_epoch ! 0 = 0 \<and> described_saves nb_epoch ! 1 = 0"
    using assms(1) by (simp add: described_saves_def upt_conv_Cons)
  note c = fit_loop_steady [where body = "classifier_batch ops get_feed_dict m log_every_N_batches"
      and step = "classifier_step ops get_feed_dict m" and ops = ops and st = st,
      OF classifier_batch_steady [OF assms(2)] assms(1) assms(3)]
  note r = fit_loop_steady [where body = "fit_transform_batch ops get_feed_dict m fit_transformers
        log_every_N_batches"
      and step = "fit_transform_step ops get_feed_dict m fit_transformers" and ops = ops
      and st = st,
      OF fit_transform_batch_steady [OF assms(2)] assms(1) assms(3)]
  note cl = fit_loop_steady [where body = "classifier_batch logging_session get_feed_dict m
        log_every_N_batches"
      and step = "classifier_step logging_session get_feed_dict m" and ops = logging_session
      and st = lst,
      OF classifier_batch_steady [OF assms(2)] assms(1) assms(3)]
  note rl = fit_loop_steady [where body = "fit_transform_batch logging_session get_feed_dict m
        (map pure_transformer fs) log_every_N_batches"
      and step = "fit_transform_step logging_session get_feed_dict m (map pure_transformer fs)"
      and ops = logging_session and st = lst,
      OF fit_transform_batch_steady [OF assms(2)] assms(1) assms(3)]
  have lc: "described_session logging_session (classifier_step logging_session get_feed_dict m)
              iterbatches nb_epoch s = s @ described_events iterbatches nb_epoch" for s
    by (rule logged_session) (rule classifier_step_logged)
  have lr: "described_session logging_session
              (fit_transform_step logging_session get_feed_dict m (map pure_transformer fs))
              iterbatches nb_epoch s = s @ described_events iterbatches nb_epoch" for s
    by (rule logged_session) (rule fit_transform_step_logged)
  show ?thesis
    unfolding classifier_fit_def fit_transform_fit_def
    by (simp only: c r cl rl lc lr first simp_thms)
qed

text \<open>
  The theorem for two epochs of two minibatches each, on the session that writes down
  its events: the checkpoint 0 comes before the first training step, and the checkpoint
  of each epoch after the two training steps of the epoch.
\<close>

theorem checkpoint_sequence_witness:
  "(1::int) \<le> 2 \<and> (50::int) \<noteq> 0 \<and>
   classifier_fit logging_session id example_model two_batches 2 50
     \<lparr>session = [], saved = [], fed = []\<rparr> =
     (Inr (),
      \<lparr>session = [Initialized, Saved 0, Trained, Trained, Saved 0, Trained, Trained, Saved 1,
                  Saved 2],
       saved = [0, 0, 1, 2],
       fed = [classifier_orig_dict example_model ''X0'' (Some ''y0'') (Some ''w0''),
              classifier_orig_dict example_model ''X1'' (Some ''y1'') (Some ''w1''),
              classifier_orig_dict example_model ''X0'' (Some ''y0'') (Some ''w0''),
              classifier_orig_dict example_model ''X1'' (Some ''y1'') (Some ''w1'')]\<rparr>) \<and>
   saved (snd (fit_transform_fit counting_session id example_model [] one_batch 3 50 fresh)) =
     [0, 0, 1, 2, 3]"
proof -
  have d: "described_saves 3 = [0, 0, 1, 2, 3]" "described_saves 2 = [0, 0, 1, 2]"
    by (simp_all add: described_saves_def upt_conv_Cons)
  have e: "described_events two_batches 2 =
             [Initialized, Saved 0, Trained, Trained, Saved 0, Trained, Trained, Saved 1, Saved 2]"
    by (simp add: described_events_def two_batches_def upt_conv_Cons numeral_2_eq_2)
  have ds: "described_session logging_session (classifier_step logging_session id example_model)
              two_batches 2 [] =
            [Initialized, Saved 0, Trained, Trained, Saved 0, Trained, Trained, Saved 1, Saved 2]"
    using logged_session [of "classifier_step logging_session id example_model" two_batches 2 "[]",
        OF classifier_step_logged]
    by (simp only: e append_Nil)
  have h3: "(1::int) \<le> 3" "(50::int) \<noteq> 0" "\<forall>e < nat 3. one_batch e \<noteq> []"
    by (simp_all add: one_batch_def)
  have h2: "(1::int) \<le> 2" "(50::int) \<noteq> 0" "\<forall>e < nat 2. two_batches e \<noteq> []"
    by (simp_all add: two_batches_def)
  have f: "fed (snd (classifier_fit logging_session id example_model two_batches 2 50
                       \<lparr>session = [], saved = [], fed = []\<rparr>)) =
             [classifier_orig_dict example_model ''X0'' (Some ''y0'') (Some ''w0''),
              classifier_orig_dict example_model ''X1'' (Some ''y1'') (Some ''w1''),
              classifier_orig_dict example_model ''X0'' (Some ''y0'') (Some ''w0''),
              classifier_orig_dict example_model ''X1'' (Some ''y1'') (Some ''w1'')]"
    by (simp add: classifier_fit_def fit_loop_def fit_epoch_def py_range_def saver_save_def
          logging_session_def two_batches_def classifier_batch_def
          classifier_construct_feed_dict_def upt_conv_Cons numeral_2_eq_2)
  from checkpoint_sequence [OF h3, where ops = counting_session and get_feed_dict = id
      and m = example_model and st = fresh and fit_transformers = "[]"]
  have three: "saved (snd (fit_transform_fit counting_session id example_model [] one_batch 3 50
                             fresh)) = [0, 0, 1, 2, 3]"
    by (simp add: d fresh_def)
  from checkpoint_sequence [OF h2, where ops = logging_session and get_feed_dict = id
      and m = example_model and st = "\<lparr>session = [], saved = [], fed = []\<rparr>"
      and lst = "\<lparr>session = [], saved = [], fed = []\<rparr>" and fit_transformers = "[]"
      and fs = "[]"]
  have two: "fst (classifier_fit logging_session id example_model two_batches 2 50
                    \<lparr>session = [], saved = [], fed = []\<rparr>) = Inr ()"
      "saved (snd (classifier_fit logging_session id example_model two_batches 2 50
                    \<lparr>session = [], saved = [], fed = []\<rparr>)) = [0, 0, 1, 2]"
      "session (snd (classifier_fit logging_session id example_model two_batches 2 50
                    \<lparr>session = [], saved = [], fed = []\<rparr>)) =
         [Initialized, Saved 0, Trained, Trained, Saved 0, Trained, Trained, Saved 1, Saved 2]"
    by (simp_all add: d e ds)
  have "classifier_fit logging_session id example_model two_batches 2 50
          \<lparr>session = [], saved = [], fed = []\<rparr> =
        (Inr (),
         \<lparr>session = [Initialized, Saved 0, Trained, Trained, Saved 0, Trained, Trained, Saved 1,
                     Saved 2],
          saved = [0, 0, 1, 2],
          fed = [classifier_orig_dict example_model ''X0'' (Some ''y0'') (Some ''w0''),
                 classifier_orig_dict example_model ''X1'' (Some ''y1'') (Some ''w1''),
                 classifier_orig_dict example_model ''X0'' (Some ''y0'') (Some ''w0''),
                 classifier_orig_dict example_model ''X1'' (Some ''y1'') (Some ''w1'')]\<rparr>)"
    using two f
    by (cases "classifier_fit logging_session id example_model two_batches 2 50
                 \<lparr>session = [], saved = [], fed = []\<rparr>") auto
  with three show ?thesis by simp
qed

text \<open>
  Claim C4 as it was stated speaks of every call with \<open>nb_epoch \<ge> 1\<close>. For one epoch
  the checkpoints described are 0, 0, 1. On a dataset without minibatches the call saves
  0, 0 and raises; with \<open>log_every_N_batches = 0\<close> and a minibatch it saves 0 and raises.
\<close>

theorem checkpoint_sequence_counterexample:
  "classifier_fit counting_session id example_model no_batches 1 50 fresh =
     (Inl ZeroDivisionError, \<lparr>session = 0, saved = [0, 0], fed = []\<rparr>) \<and>
   fit_transform_fit counting_session id example_model [] one_batch 1 0 fresh =
     (Inl ZeroDivisionError, \<lparr>session = 0, saved = [0], fed = []\<rparr>) \<and>
   described_saves 1 = [0, 0, 1]"
  by (simp add: classifier_fit_def fit_transform_fit_def fit_loop_def fit_epoch_def py_range_def
        saver_save_def counting_session_def fresh_def no_batches_def one_batch_def
        fit_transform_batch_def described_saves_def)

text \<open>
  Claim C9. Every call of \<^verbatim>\<open>fit\<close> (of either class) with \<open>nb_epoch = 0\<close> saves the
  checkpoint with \<open>global_step\<close> 0, runs no epoch, and raises \<^verbatim>\<open>NameError\<close> for the
  unbound loop variable \<open>epoch\<close> when it evaluates \<open>epoch + 1\<close> for the last checkpoint,
  which is not saved.
\<close>

theorem fit_without_epochs:
  "classifier_fit ops get_feed_dict m iterbatches 0 log_every_N_batches st =
     (Inl (NameError ''epoch''),
      \<lparr>session = save_checkpoint ops 0 (initialize ops (session st)),
       saved = saved st @ [0], fed = fed st\<rparr>) \<and>
   fit_transform_fit ops get_feed_dict m fit_transformers iterbatches 0 log_every_N_batches st =
     (Inl (NameError ''epoch''),
      \<lparr>session = save_checkpoint ops 0 (initialize ops (session st)),
       saved = saved st @ [0], fed = fed st\<rparr>)"
  by (simp add: classifier_fit_def fit_transform_fit_def fit_loop_no_epochs)

text \<open>The theorem on the stand-in session.\<close>

theorem fit_without_epochs_witness:
  "classifier_fit counting_session id example_model one_batch 0 50 fresh =
     (Inl (NameError ''epoch''), \<lparr>session = 0, saved = [0], fed = []\<rparr>)"
  using fit_without_epochs [of counting_session id example_model one_batch 50 fresh]
  by (simp add: counting_session_def fresh_def)

text \<open>
  Claim C10. Every call of \<^verbatim>\<open>fit\<close> (of either class) with \<open>nb_epoch \<ge> 1\<close> on a dataset
  that yields no minibatch leaves \<open>n_batches\<close> at 0 in the first epoch and raises
  \<^verbatim>\<open>ZeroDivisionError\<close> when it divides the loss by it, after the checkpoints with
  \<open>global_step\<close> 0 before training and 0 for the first epoch; no training step was run.
\<close>

theorem fit_without_batches:
  assumes "1 \<le> nb_epoch" "iterbatches 0 = []"
  shows "classifier_fit ops get_feed_dict m iterbatches nb_epoch log_every_N_batches st =
     (Inl ZeroDivisionError,
      \<lparr>session = save_checkpoint ops 0 (save_checkpoint ops 0 (initialize ops (session st))),
       saved = saved st @ [0, 0], fed = fed st\<rparr>) \<and>
   fit_transform_fit ops get_feed_dict m fit_transformers iterbatches nb_epoch log_every_N_batches st =
     (Inl ZeroDivisionError,
      \<lparr>session = save_checkpoint ops 0 (save_checkpoint ops 0 (initialize ops (session st))),
       saved = saved st @ [0, 0], fed = fed st\<rparr>)"
  by (simp add: classifier_fit_def fit_transform_fit_def fit_loop_no_batches [where iterbatches = iterbatches and nb_epoch = nb_epoch, OF assms])

text \<open>The theorem for ten epochs on the dataset without minibatches.\<close>

theorem fit_without_batches_witness:
  "(1::int) \<le> 10 \<and> no_batches 0 = [] \<and>
   fit_transform_fit counting_session id example_model [] no_batches 10 50 fresh =
     (Inl ZeroDivisionError, \<lparr>session = 0, saved = [0, 0], fed = []\<rparr>)"
proof -
  have h: "(1::int) \<le> 10" "no_batches 0 = []"
    by (simp_all add: no_batches_def)
  show ?thesis
    using h fit_without_batches [where iterbatches = no_batches and nb_epoch = 10
        and ops = counting_session and get_feed_dict = id and m = example_model
        and log_every_N_batches = 50 and st = fresh and fit_transformers = "[]", OF h]
    by (simp add: counting_session_def fresh_def)
qed

section \<open>Prediction on one example, and the example script\<close>

text \<open>
  Claim C3 says of \<^verbatim>\<open>predict_on_batch\<close> that the model is run once for each of the
  \<open>n_evals\<close> transformed copies of the input and that the elementwise mean over the runs
  is returned. For an input of one example and a model with two tasks the session
  returns two arrays without dimensions. The run's output is the vector of the two
  predictions, 7 and 9, and so is the mean over the one run; what is returned is cut to
  the length of the input, 1, and holds the prediction of the first task only.
\<close>

theorem predict_on_batch_single_example:
  "predict_on_batch two_scalars id example_model [] 1 False True one_example () =
     (Inr \<lparr>shape = [1], elems = [7]\<rparr>, ()) \<and>
   run_output 2 one_example 1 [\<lparr>shape = [], elems = [7]\<rparr>, \<lparr>shape = [], elems = [9]\<rparr>] =
     Inr (\<lparr>shape = [2], elems = [7, 9]\<rparr>, 1) \<and>
   elementwise_mean [\<lparr>shape = [2], elems = [7, 9]\<rparr>] = \<lparr>shape = [2], elems = [7, 9]\<rparr>"
  by code_simp

text \<open>
  Claim C8 says that every name the example script reads at module level is bound
  before. Line 19 binds \<open>dataset\<close>; line 20 reads \<open>datasets\<close>, which no statement binds,
  and the script ends there in \<^verbatim>\<open>NameError\<close>. The statements before line 20 run.
\<close>

theorem example_script_raises:
  "run_statements builtins gdb7_tf_model = Inl (NameError ''datasets'') \<and>
   run_statements builtins before_line_20 =
     Inr [''print'', ''print_function'', ''division'', ''unicode_literals'', ''os'', ''dc'',
          ''np'', ''load_gdb7'', ''load_gdb7_from_mat'', ''split'', ''num_atoms'', ''featurizer'',
          ''gdb7_tasks'', ''dataset'', ''transformers'']"
  by (simp add: builtins_def gdb7_tf_model_def before_line_20_def)

end
